theory Spec2Isabelle
  imports Complex_Main "HOL-Library.Log_Nat" "HOL-Library.AList"
begin

section \<open>JavaScript values used by App.js\<close>

text \<open>
  A JavaScript Number is an IEEE binary64 value.  A finite one is carried by its exact
  rational value, the two infinities by their sign (\<open>Infty True\<close> is \<open>+Infinity\<close>).
  \<open>Fin 0\<close> is \<open>+0\<close> and \<open>NegZero\<close> is \<open>-0\<close>.
\<close>

datatype number = NaN | Infty bool | NegZero | Fin rat

text \<open>
  Strings are byte lists; a character outside ASCII is written as its UTF-8 bytes, so
  the string functions below are those of JavaScript on ASCII text.  Objects are
  association lists in property insertion order (the order of JavaScript for keys that
  are not array indices).
\<close>

datatype jsval =
    JUndefined
  | JNull
  | JBool bool
  | JNum number
  | JStr string
  | JArr "jsval list"
  | JObj "(string \<times> jsval) list"

type_synonym obj = "(string \<times> jsval) list"

datatype error = TypeError | RangeError

subsection \<open>Rounding to binary64\<close>

definition round_half_even :: "rat \<Rightarrow> int" where
  "round_half_even q =
     (let f = \<lfloor>q\<rfloor>; r = q - of_int f
      in if r < 1 / 2 then f else if 1 / 2 < r then f + 1 else if even f then f else f + 1)"

text \<open>\<open>ilog2 q\<close> is the binary exponent of a positive rational: \<open>2 powi e \<le> q < 2 powi (e + 1)\<close>.\<close>

definition ilog2 :: "rat \<Rightarrow> int" where
  "ilog2 q =
     (let e = bitlen (fst (quotient_of q)) - bitlen (snd (quotient_of q))
      in if 2 powi e \<le> q then e else e - 1)"

text \<open>
  \<open>fl q\<close> is the binary64 value nearest to \<open>q\<close>, a tie going to the even significand:
  53 significant bits, the exponent not below \<open>-1022\<close> (subnormal numbers share the
  spacing \<open>2 powi (-1074)\<close>), an infinity once the rounded magnitude reaches
  \<open>2 powi 1024\<close>, and a zero of the sign of \<open>q\<close> when the magnitude rounds to nothing.
\<close>

definition fl :: "rat \<Rightarrow> number" where
  "fl q =
     (if q = 0 then Fin 0
      else let e = max (ilog2 \<bar>q\<bar>) (- 1022);
               ulp = 2 powi (e - 52);
               v = of_int (round_half_even (\<bar>q\<bar> / ulp)) * ulp
           in if 2 powi 1024 \<le> v then Infty (0 < q)
              else if v = 0 \<and> q < 0 then NegZero
              else Fin (sgn q * v))"

subsection \<open>Arithmetic and comparison on Numbers\<close>

text \<open>
  The value of a finite Number, its sign bit, and the zero of a given sign.  The
  operations follow IEEE 754 as ECMAScript prescribes: an exact zero result takes the
  sign the standard gives it, any other result is rounded by \<open>fl\<close>.
\<close>

fun is_finite :: "number \<Rightarrow> bool" where
  "is_finite (Fin a) = True"
| "is_finite NegZero = True"
| "is_finite (Infty s) = False"
| "is_finite NaN = False"

fun num_val :: "number \<Rightarrow> rat" where
  "num_val (Fin a) = a"
| "num_val NegZero = 0"
| "num_val (Infty s) = 0"
| "num_val NaN = 0"

fun negative :: "number \<Rightarrow> bool" where
  "negative (Fin a) = (a < 0)"
| "negative NegZero = True"
| "negative (Infty s) = (\<not> s)"
| "negative NaN = False"

definition signed_zero :: "bool \<Rightarrow> number" where
  "signed_zero neg = (if neg then NegZero else Fin 0)"

definition js_add :: "number \<Rightarrow> number \<Rightarrow> number" where
  "js_add x y =
     (if x = NaN \<or> y = NaN then NaN
      else if is_finite x \<and> is_finite y then
        (if num_val x + num_val y = 0 then signed_zero (negative x \<and> negative y)
         else fl (num_val x + num_val y))
      else if is_finite y then x
      else if is_finite x then y
      else if negative x = negative y then x
      else NaN)"

definition js_mul :: "number \<Rightarrow> number \<Rightarrow> number" where
  "js_mul x y =
     (if x = NaN \<or> y = NaN then NaN
      else if is_finite x \<and> is_finite y then
        (if num_val x * num_val y = 0 then signed_zero (negative x \<noteq> negative y)
         else fl (num_val x * num_val y))
      else if (is_finite x \<and> num_val x = 0) \<or> (is_finite y \<and> num_val y = 0) then NaN
      else Infty (negative x = negative y))"

definition js_div :: "number \<Rightarrow> number \<Rightarrow> number" where
  "js_div x y =
     (if x = NaN \<or> y = NaN then NaN
      else if is_finite x \<and> is_finite y then
        (if num_val y = 0 then (if num_val x = 0 then NaN else Infty (negative x = negative y))
         else if num_val x = 0 then signed_zero (negative x \<noteq> negative y)
         else fl (num_val x / num_val y))
      else if is_finite y then Infty (negative x = negative y)
      else if is_finite x then signed_zero (negative x \<noteq> negative y)
      else NaN)"

text \<open>
  The remainder \<open>%\<close> truncates the quotient towards zero; its result is exact and has
  the sign of the dividend.
\<close>

definition trunc :: "rat \<Rightarrow> int" where
  "trunc q = (if 0 \<le> q then \<lfloor>q\<rfloor> else \<lceil>q\<rceil>)"

definition js_mod :: "number \<Rightarrow> number \<Rightarrow> number" where
  "js_mod x y =
     (if x = NaN \<or> y = NaN \<or> \<not> is_finite x then NaN
      else if \<not> is_finite y then x
      else if num_val y = 0 then NaN
      else (let r = num_val x - num_val y * of_int (trunc (num_val x / num_val y))
            in if r = 0 then signed_zero (negative x) else Fin r))"

text \<open>\<open>x >= y\<close>: false when an operand is \<open>NaN\<close>; the two zeros are equal.\<close>

definition js_ge :: "number \<Rightarrow> number \<Rightarrow> bool" where
  "js_ge x y =
     (x \<noteq> NaN \<and> y \<noteq> NaN
      \<and> (x = Infty True \<or> y = Infty False \<or> (is_finite x \<and> is_finite y \<and> num_val y \<le> num_val x)))"

text \<open>
  \<open>Math.round\<close>: the nearest integer, a tie going towards \<open>+Infinity\<close>; a result of
  zero keeps the sign of the argument.
\<close>

definition Math_round :: "number \<Rightarrow> number" where
  "Math_round x =
     (if \<not> is_finite x then x
      else if \<lfloor>num_val x + 1 / 2\<rfloor> = 0 then signed_zero (negative x)
      else Fin (of_int \<lfloor>num_val x + 1 / 2\<rfloor>))"

subsection \<open>Truthiness, property reads, strings\<close>

fun truthy :: "jsval \<Rightarrow> bool" where
  "truthy JUndefined = False"
| "truthy JNull = False"
| "truthy (JBool b) = b"
| "truthy (JNum NaN) = False"
| "truthy (JNum (Infty s)) = True"
| "truthy (JNum NegZero) = False"
| "truthy (JNum (Fin a)) = (a \<noteq> 0)"
| "truthy (JStr s) = (s \<noteq> [])"
| "truthy (JArr xs) = True"
| "truthy (JObj ps) = True"

text \<open>\<open>a || b\<close> with both operands already evaluated (the right one has no effect).\<close>

definition js_or :: "jsval \<Rightarrow> jsval \<Rightarrow> jsval" where
  "js_or a b = (if truthy a then a else b)"

text \<open>\<open>o.k\<close> on an object literal or a parsed JSON object: the own property or \<open>undefined\<close>.\<close>

definition own_prop :: "obj \<Rightarrow> string \<Rightarrow> jsval" where
  "own_prop ps k = (case map_of ps k of None \<Rightarrow> JUndefined | Some v \<Rightarrow> v)"

text \<open>
  \<open>v.k\<close> on any value: reading a property of \<open>null\<close> or \<open>undefined\<close> throws a
  TypeError; a primitive or an array has none of the property names App.js reads
  (\<open>kpis\<close>, \<open>timeseries\<close>, \<open>locality\<close>, \<open>city\<close>, \<open>principalSubdivision\<close>).
\<close>

fun get :: "jsval \<Rightarrow> string \<Rightarrow> error + jsval" where
  "get JUndefined k = Inl TypeError"
| "get JNull k = Inl TypeError"
| "get (JObj ps) k = Inr (own_prop ps k)"
| "get v k = Inr JUndefined"

definition is_ascii :: "char \<Rightarrow> bool" where
  "is_ascii c = ((of_char c :: nat) < 128)"

definition ascii_upper :: "char \<Rightarrow> char" where
  "ascii_upper c =
     (if 97 \<le> (of_char c :: nat) \<and> (of_char c :: nat) \<le> 122 then char_of (of_char c - (32::nat))
      else c)"

text \<open>
  \<open>s.toUpperCase()\<close>.  On a string of ASCII characters only the letters \<open>a\<close> to \<open>z\<close>
  change.  On any other string the result is given by the Unicode case mapping of the
  host (one character may become several), passed in as \<open>unicode_upper\<close>.
\<close>

definition toUpperCase :: "(string \<Rightarrow> string) \<Rightarrow> string \<Rightarrow> string" where
  "toUpperCase unicode_upper s =
     (if list_all is_ascii s then map ascii_upper s else unicode_upper s)"

fun startsWith :: "string \<Rightarrow> string \<Rightarrow> bool" where
  "startsWith s [] = True"
| "startsWith [] (c # t) = False"
| "startsWith (d # s) (c # t) = (d = c \<and> startsWith s t)"

text \<open>\<open>s.includes(t)\<close>: \<open>t\<close> occurs in \<open>s\<close> at some position.\<close>

fun str_includes :: "string \<Rightarrow> string \<Rightarrow> bool" where
  "str_includes [] t = (t = [])"
| "str_includes (d # s) t = (startsWith (d # s) t \<or> str_includes s t)"

text \<open>\<open>s.split(' ')[0]\<close>: the text before the first space.\<close>

definition first_token :: "string \<Rightarrow> string" where
  "first_token s = takeWhile (\<lambda>c. c \<noteq> CHR '' '') s"

text \<open>\<open>s.slice(-1)\<close>: the last character, or the empty string.\<close>

definition slice_last :: "string \<Rightarrow> string" where
  "slice_last s = drop (length s - 1) s"

definition is_digit :: "char \<Rightarrow> bool" where
  "is_digit c = (48 \<le> (of_char c :: nat) \<and> (of_char c :: nat) \<le> 57)"

definition digit_val :: "char \<Rightarrow> nat" where
  "digit_val c = of_char c - 48"

definition is_space :: "char \<Rightarrow> bool" where
  "is_space c = ((of_char c :: nat) \<in> {9, 10, 11, 12, 13, 32})"

definition is_hex_digit :: "char \<Rightarrow> bool" where
  "is_hex_digit c =
     (is_digit c \<or> (65 \<le> (of_char c :: nat) \<and> (of_char c :: nat) \<le> 70)
      \<or> (97 \<le> (of_char c :: nat) \<and> (of_char c :: nat) \<le> 102))"

definition hex_val :: "char \<Rightarrow> nat" where
  "hex_val c =
     (if is_digit c then digit_val c
      else if (of_char c :: nat) \<le> 70 then of_char c - 55 else of_char c - 87)"

text \<open>
  \<open>parseInt(s)\<close> with no radix: leading (ASCII) white space and one sign are skipped,
  a prefix \<open>0x\<close> or \<open>0X\<close> selects base 16, the longest run of digits is read, and no
  digit at all gives \<open>NaN\<close>.
\<close>

definition parseInt :: "string \<Rightarrow> number" where
  "parseInt s =
     (let t = dropWhile is_space s;
          neg = (t \<noteq> [] \<and> hd t = CHR ''-'');
          u = (if t \<noteq> [] \<and> (hd t = CHR ''-'' \<or> hd t = CHR ''+'') then tl t else t);
          hex = (startsWith u ''0x'' \<or> startsWith u ''0X'');
          ds = (if hex then takeWhile is_hex_digit (drop 2 u) else takeWhile is_digit u);
          n = (if hex then foldl (\<lambda>a c. 16 * a + hex_val c) 0 ds
               else foldl (\<lambda>a c. 10 * a + digit_val c) 0 ds)
      in if ds = [] then NaN else js_mul (fl (of_nat n)) (Fin (if neg then - 1 else 1)))"

section \<open>Mock data\<close>

record District =
  district_code :: string
  district_name :: string

definition SAMPLE_DISTRICTS :: "District list" where
  "SAMPLE_DISTRICTS =
     [\<lparr>district_code = ''0501'', district_name = ''PATNA''\<rparr>,
      \<lparr>district_code = ''0502'', district_name = ''NALANDA''\<rparr>,
      \<lparr>district_code = ''0506'', district_name = ''JEHANABAD''\<rparr>,
      \<lparr>district_code = ''0518'', district_name = ''SAMASTIPUR''\<rparr>,
      \<lparr>district_code = ''0544'', district_name = ''SUPAUL''\<rparr>,
      \<lparr>district_code = ''0504'', district_name = ''ROHTAS''\<rparr>,
      \<lparr>district_code = ''0508'', district_name = ''NAWADA''\<rparr>,
      \<lparr>district_code = ''0513'', district_name = ''PURBI CHAMPARAN''\<rparr>,
      \<lparr>district_code = ''0520'', district_name = ''MADHUBANI''\<rparr>,
      \<lparr>district_code = ''0541'', district_name = ''ARARIA''\<rparr>]"

record TimeseriesPoint =
  month :: string
  households :: number
  persondays :: number
  expenditure :: number

definition SAMPLE_TIMESERIES :: "TimeseriesPoint list" where
  "SAMPLE_TIMESERIES =
     [\<lparr>month = ''Apr'', households = Fin 90000, persondays = Fin 300000, expenditure = Fin 12000\<rparr>,
      \<lparr>month = ''May'', households = Fin 92000, persondays = Fin 320000, expenditure = Fin 13000\<rparr>,
      \<lparr>month = ''Jun'', households = Fin 87000, persondays = Fin 310000, expenditure = Fin 12500\<rparr>,
      \<lparr>month = ''Jul'', households = Fin 94000, persondays = Fin 330000, expenditure = Fin 14000\<rparr>,
      \<lparr>month = ''Aug'', households = Fin 96000, persondays = Fin 340000, expenditure = Fin 15000\<rparr>,
      \<lparr>month = ''Sep'', households = Fin 88000, persondays = Fin 300000, expenditure = Fin 11800\<rparr>,
      \<lparr>month = ''Oct'', households = Fin 91000, persondays = Fin 315000, expenditure = Fin 12700\<rparr>,
      \<lparr>month = ''Nov'', households = Fin 93000, persondays = Fin 325000, expenditure = Fin 13200\<rparr>,
      \<lparr>month = ''Dec'', households = Fin 87155, persondays = Fin 3443327, expenditure = Fin 15209\<rparr>]"

section \<open>Compare page: getMock\<close>

text \<open>
  \<open>const factor = code ? (parseInt(code.slice(-1)) % 5) + 8 : 10\<close>; the empty string is
  the only falsy string.
\<close>

definition factor :: "string \<Rightarrow> number" where
  "factor code =
     (if code \<noteq> [] then js_add (js_mod (parseInt (slice_last code)) (Fin 5)) (Fin 8)
      else Fin 10)"

definition getMock :: "string \<Rightarrow> TimeseriesPoint list" where
  "getMock code =
     (let base = map (\<lambda>s. s) SAMPLE_TIMESERIES
      in map (\<lambda>b. b\<lparr>persondays := Math_round (js_div (js_mul (persondays b) (factor code)) (Fin 10)),
                     expenditure := Math_round (js_div (js_mul (expenditure b) (factor code)) (Fin 10))\<rparr>)
           base)"

section \<open>State comparison page\<close>

definition mockStateData :: "(string \<times> TimeseriesPoint list) list" where
  "mockStateData =
     [(''2023-24'', SAMPLE_TIMESERIES),
      (''2024-25'',
       map (\<lambda>d. d\<lparr>persondays := js_add (persondays d) (Fin 5000),
                    expenditure := js_add (expenditure d) (Fin 1000)\<rparr>)
         SAMPLE_TIMESERIES)]"

definition initial_selectedYears :: "string list" where
  "initial_selectedYears = [''2023-24'', ''2024-25'']"

definition months :: "string list" where
  "months =
     [''Apr'', ''May'', ''Jun'', ''Jul'', ''Aug'', ''Sep'',
      ''Oct'', ''Nov'', ''Dec'', ''Jan'', ''Feb'', ''Mar'']"

text \<open>\<open>data[year]?.find(m => m.month === month)?.expenditure || 0\<close>\<close>

definition year_value :: "(string \<times> TimeseriesPoint list) list \<Rightarrow> string \<Rightarrow> string \<Rightarrow> jsval" where
  "year_value data year mo =
     js_or
       (case map_of data year of
          None \<Rightarrow> JUndefined
        | Some series \<Rightarrow>
            (case find (\<lambda>m. month m = mo) series of
               None \<Rightarrow> JUndefined
             | Some m \<Rightarrow> JNum (expenditure m)))
       (JNum (Fin 0))"

text \<open>
  One row per month: the object starts as \<open>{ month }\<close> and \<open>point[year] = ...\<close> is
  executed for the selected years in order.
\<close>

definition combinedData ::
  "(string \<times> TimeseriesPoint list) list \<Rightarrow> string list \<Rightarrow> obj list" where
  "combinedData data selectedYears =
     map (\<lambda>mo. foldl (\<lambda>pt year. AList.update year (year_value data year mo) pt)
                  [(''month'', JStr mo)] selectedYears)
       months"

section \<open>formatNumber\<close>

definition digit_char :: "nat \<Rightarrow> char" where
  "digit_char d = char_of (48 + d)"

fun digits :: "nat \<Rightarrow> string" where
  "digits n = (if n < 10 then [digit_char n] else digits (n div 10) @ [digit_char (n mod 10)])"

declare digits.simps [simp del]

text \<open>
  \<open>Number.prototype.toFixed(fractionDigits)\<close>.  The sign is printed when the value is
  below zero (so not for \<open>-0\<close>).  A magnitude of \<open>10^21\<close> or more is printed by the
  runtime's Number-to-string conversion, passed in as \<open>toStr\<close>.  Below that, \<open>n\<close> is the
  integer nearest to \<open>x * 10^f\<close> (the larger one on a tie), and its digits are padded
  with zeros on the left up to \<open>f + 1\<close> characters and split before the last \<open>f\<close>.
\<close>

definition toFixed_digits :: "(rat \<Rightarrow> string) \<Rightarrow> nat \<Rightarrow> rat \<Rightarrow> string" where
  "toFixed_digits toStr f q =
     (let s = (if q < 0 then ''-'' else []);
          a = \<bar>q\<bar>
      in if 10 ^ 21 \<le> a then s @ toStr a
         else let n = nat \<lfloor>a * 10 ^ f + 1 / 2\<rfloor>;
                  m = digits n;
                  k = length m;
                  m2 = (if k \<le> f then replicate (f + 1 - k) (CHR ''0'') @ m else m);
                  k2 = (if k \<le> f then f + 1 else k)
              in s @ (if f \<noteq> 0 then take (k2 - f) m2 @ ''.'' @ drop (k2 - f) m2 else m2))"

definition toFixed :: "(rat \<Rightarrow> string) \<Rightarrow> int \<Rightarrow> number \<Rightarrow> error + string" where
  "toFixed toStr fractionDigits x =
     (if fractionDigits < 0 \<or> 100 < fractionDigits then Inl RangeError
      else case x of
          NaN \<Rightarrow> Inr ''NaN''
        | Infty s \<Rightarrow> Inr (if s then ''Infinity'' else ''-Infinity'')
        | NegZero \<Rightarrow> Inr (toFixed_digits toStr (nat fractionDigits) 0)
        | Fin q \<Rightarrow> Inr (toFixed_digits toStr (nat fractionDigits) q))"

text \<open>
  What the host supplies: Number-to-string, the locale's \<open>toLocaleString()\<close>, and the
  Unicode upper-case mapping of strings.
\<close>

record runtime =
  number_toString :: "rat \<Rightarrow> string"
  toLocaleString :: "number \<Rightarrow> string"
  unicode_toUpperCase :: "string \<Rightarrow> string"

text \<open>The argument of \<open>formatNumber\<close>: \<open>null\<close>, \<open>undefined\<close> or a Number.\<close>

datatype numeric_arg = ArgNull | ArgUndefined | ArgNum number

definition placeholder :: string where
  "placeholder = [CHR 0xE2, CHR 0x80, CHR 0x94]"

definition append_suffix :: "string \<Rightarrow> error + string \<Rightarrow> error + string" where
  "append_suffix suffix r = (case r of Inl e \<Rightarrow> Inl e | Inr s \<Rightarrow> Inr (s @ suffix))"

definition formatNumber :: "runtime \<Rightarrow> numeric_arg \<Rightarrow> error + string" where
  "formatNumber rt n =
     (case n of
        ArgNull \<Rightarrow> Inr placeholder
      | ArgUndefined \<Rightarrow> Inr placeholder
      | ArgNum x \<Rightarrow>
          if js_ge x (Fin (10 ^ 7))
          then append_suffix '' Cr'' (toFixed (number_toString rt) 1 (js_div x (Fin (10 ^ 7))))
          else if js_ge x (Fin (10 ^ 5))
          then append_suffix '' L'' (toFixed (number_toString rt) 1 (js_div x (Fin (10 ^ 5))))
          else Inr (toLocaleString rt x))"

section \<open>Dashboard page\<close>

text \<open>
  The view state of the Dashboard component, with the alerts shown so far.  The payload
  of the backend is arbitrary JSON, so the two data fields hold JavaScript values.
\<close>

record Dashboard =
  district :: string
  districtInfo :: jsval
  timeseries :: jsval
  alerts :: "string list"

definition point_json :: "TimeseriesPoint \<Rightarrow> jsval" where
  "point_json p =
     JObj [(''month'', JStr (month p)), (''households'', JNum (households p)),
           (''persondays'', JNum (persondays p)), (''expenditure'', JNum (expenditure p))]"

definition series_json :: "TimeseriesPoint list \<Rightarrow> jsval" where
  "series_json ps = JArr (map point_json ps)"

definition initial_Dashboard :: Dashboard where
  "initial_Dashboard =
     \<lparr>district = [], districtInfo = JNull, timeseries = series_json SAMPLE_TIMESERIES,
      alerts = []\<rparr>"

definition alert :: "string \<Rightarrow> Dashboard \<Rightarrow> Dashboard" where
  "alert msg s = s\<lparr>alerts := alerts s @ [msg]\<rparr>"

text \<open>
  \<open>SAMPLE_DISTRICTS.find(d => d.district_code === district)?.district_name || 'Unknown'\<close>
\<close>

definition fallback_name :: "string \<Rightarrow> jsval" where
  "fallback_name code =
     js_or (case find (\<lambda>d. district_code d = code) SAMPLE_DISTRICTS of
              None \<Rightarrow> JUndefined
            | Some d \<Rightarrow> JStr (district_name d))
       (JStr ''Unknown'')"

text \<open>The object literal of the catch branch; \<open>100.74\<close> is the binary64 value of that literal.\<close>

definition fallback_kpis :: "string \<Rightarrow> jsval" where
  "fallback_kpis code =
     JObj [(''district_name'', fallback_name code),
           (''Total_Individuals_Worked'', JNum (Fin 90928)),
           (''Total_Households_Worked'', JNum (Fin 87155)),
           (''Total_Exp'', JNum (Fin 15209)),
           (''Women_Persondays'', JNum (Fin 1696959)),
           (''Average_days_of_employment_provided_per_Household'', JNum (Fin 39)),
           (''percentage_payments_gererated_within_15_days'', JNum (fl (10074 / 100)))]"

text \<open>How the request of the effect ends: \<open>fetch\<close> rejects, \<open>res.json()\<close> rejects, or a value is parsed.\<close>

datatype fetch_result = NetworkError | NotJson | Json jsval

text \<open>
  The second \<open>then\<close> callback:
  \<open>setDistrictInfo(data.kpis); setTimeseries(data.timeseries || [])\<close>.
  The result carries the error thrown, if any, and the state reached.
\<close>

definition on_data :: "jsval \<Rightarrow> Dashboard \<Rightarrow> error option \<times> Dashboard" where
  "on_data data s =
     (case get data ''kpis'' of
        Inl e \<Rightarrow> (Some e, s)
      | Inr k \<Rightarrow>
          (let s1 = s\<lparr>districtInfo := k\<rparr>
           in case get data ''timeseries'' of
                Inl e \<Rightarrow> (Some e, s1)
              | Inr t \<Rightarrow> (None, s1\<lparr>timeseries := js_or t (JArr [])\<rparr>)))"

text \<open>
  The \<open>catch\<close> callback.  It reads \<open>district\<close> from the closure of the effect that
  issued the request: \<open>code\<close> is that captured value, \<open>s\<close> the state held when the
  callback runs.
\<close>

definition on_error :: "string \<Rightarrow> Dashboard \<Rightarrow> Dashboard" where
  "on_error code s =
     (alert ''Failed to fetch live data, showing sample instead.'' s)
       \<lparr>districtInfo := fallback_kpis code,
        timeseries := series_json SAMPLE_TIMESERIES\<rparr>"

text \<open>
  One run of the effect.  \<open>code\<close> is the value of \<open>district\<close> in the render the effect
  belongs to: the guard \<open>if (!district) return\<close> tests it when the effect starts, and no
  request is made for the empty code.  Otherwise the request ends as \<open>r\<close>, and the
  callbacks update the state \<open>s\<close> held at that moment, which may already show another
  selection.
\<close>

definition fetch_effect :: "string \<Rightarrow> fetch_result \<Rightarrow> Dashboard \<Rightarrow> Dashboard" where
  "fetch_effect code r s =
     (if code = [] then s
      else case r of
          NetworkError \<Rightarrow> on_error code s
        | NotJson \<Rightarrow> on_error code s
        | Json data \<Rightarrow>
            (case on_data data s of
               (None, s') \<Rightarrow> s'
             | (Some e, s') \<Rightarrow> on_error code s'))"

text \<open>
  Choosing \<open>code\<close> in the selector when no request is pending: \<open>setDistrict(code)\<close>, then
  the effect of the new render runs to its end.
\<close>

definition select_district :: "string \<Rightarrow> fetch_result \<Rightarrow> Dashboard \<Rightarrow> Dashboard" where
  "select_district code r s = fetch_effect code r (s\<lparr>district := code\<rparr>)"

subsection \<open>handleDetect\<close>

text \<open>
  What the browser answers: no geolocation API, the error callback, or the success
  callback with the outcome of the reverse-geocoding request.
\<close>

datatype geolocation = Unavailable | PositionError | Position fetch_result

text \<open>\<open>jd.locality || jd.city || jd.principalSubdivision\<close>, evaluated left to right.\<close>

definition locality_of :: "jsval \<Rightarrow> error + jsval" where
  "locality_of jd =
     (case get jd ''locality'' of
        Inl e \<Rightarrow> Inl e
      | Inr a \<Rightarrow>
          if truthy a then Inr a
          else (case get jd ''city'' of
                  Inl e \<Rightarrow> Inl e
                | Inr b \<Rightarrow> if truthy b then Inr b else get jd ''principalSubdivision''))"

text \<open>
  \<open>SAMPLE_DISTRICTS.find(d => locality && locality.toUpperCase().includes(d.district_name.split(' ')[0]))\<close>:
  a falsy locality matches nothing; a truthy value that is not a string has no
  \<open>toUpperCase\<close> method, and the first call of the callback throws.
\<close>

definition match_district :: "runtime \<Rightarrow> jsval \<Rightarrow> error + District option" where
  "match_district rt locality =
     (if \<not> truthy locality then Inr None
      else case locality of
          JStr l \<Rightarrow>
            Inr (find (\<lambda>d. str_includes (toUpperCase (unicode_toUpperCase rt) l)
                                    (first_token (district_name d)))
                   SAMPLE_DISTRICTS)
        | _ \<Rightarrow> Inl TypeError)"

definition detect_failed :: string where
  "detect_failed = ''Auto-detect failed '' @ [CHR 0xE2, CHR 0x80, CHR 0x94] @ '' please select manually.''"

definition on_position :: "runtime \<Rightarrow> fetch_result \<Rightarrow> Dashboard \<Rightarrow> Dashboard" where
  "on_position rt r s =
     (case r of
        NetworkError \<Rightarrow> alert detect_failed s
      | NotJson \<Rightarrow> alert detect_failed s
      | Json jd \<Rightarrow>
          (case locality_of jd of
             Inl e \<Rightarrow> alert detect_failed s
           | Inr locality \<Rightarrow>
               (case match_district rt locality of
                  Inl e \<Rightarrow> alert detect_failed s
                | Inr None \<Rightarrow> alert ''Could not auto-detect district. Please select from list.'' s
                | Inr (Some d) \<Rightarrow> s\<lparr>district := district_code d\<rparr>)))"

definition handleDetect :: "runtime \<Rightarrow> geolocation \<Rightarrow> Dashboard \<Rightarrow> Dashboard" where
  "handleDetect rt g s =
     (case g of
        Unavailable \<Rightarrow> alert ''Geolocation not available on this device'' s
      | PositionError \<Rightarrow> alert ''Location permission denied or unavailable'' s
      | Position r \<Rightarrow> on_position rt r s)"

section \<open>App: the language flag and the routes\<close>

text \<open>The Hindi texts, as UTF-8 bytes.\<close>

definition hi_home :: string where
  "hi_home =
     [CHR 0xE0, CHR 0xA4, CHR 0xAE, CHR 0xE0, CHR 0xA5, CHR 0x81, CHR 0xE0, CHR 0xA4,
      CHR 0x96, CHR 0xE0, CHR 0xA5, CHR 0x8D, CHR 0xE2, CHR 0x80, CHR 0x8D, CHR 0xE0,
      CHR 0xA4, CHR 0xAF]
     @ '' ''
     @ [CHR 0xE0, CHR 0xA4, CHR 0xAA, CHR 0xE0, CHR 0xA5, CHR 0x83, CHR 0xE0, CHR 0xA4,
      CHR 0xB7, CHR 0xE0, CHR 0xA5, CHR 0x8D, CHR 0xE0, CHR 0xA4, CHR 0xA0]"

definition hi_state_comparison :: string where
  "hi_state_comparison =
     [CHR 0xE0, CHR 0xA4, CHR 0xB0, CHR 0xE0, CHR 0xA4, CHR 0xBE, CHR 0xE0, CHR 0xA4,
      CHR 0x9C, CHR 0xE0, CHR 0xA5, CHR 0x8D, CHR 0xE0, CHR 0xA4, CHR 0xAF]
     @ '' ''
     @ [CHR 0xE0, CHR 0xA4, CHR 0xA4, CHR 0xE0, CHR 0xA5, CHR 0x81, CHR 0xE0, CHR 0xA4,
      CHR 0xB2, CHR 0xE0, CHR 0xA4, CHR 0xA8, CHR 0xE0, CHR 0xA4, CHR 0xBE]"

definition hi_compare :: string where
  "hi_compare =
     [CHR 0xE0, CHR 0xA4, CHR 0xA4, CHR 0xE0, CHR 0xA5, CHR 0x81, CHR 0xE0, CHR 0xA4,
      CHR 0xB2, CHR 0xE0, CHR 0xA4, CHR 0xA8, CHR 0xE0, CHR 0xA4, CHR 0xBE]"

definition hi_about :: string where
  "hi_about =
     [CHR 0xE0, CHR 0xA4, CHR 0x9C, CHR 0xE0, CHR 0xA4, CHR 0xBE, CHR 0xE0, CHR 0xA4,
      CHR 0xA8, CHR 0xE0, CHR 0xA4, CHR 0x95, CHR 0xE0, CHR 0xA4, CHR 0xBE, CHR 0xE0,
      CHR 0xA4, CHR 0xB0, CHR 0xE0, CHR 0xA5, CHR 0x80]"

definition hi_button :: string where
  "hi_button =
     [CHR 0xE0, CHR 0xA4, CHR 0xB9, CHR 0xE0, CHR 0xA4, CHR 0xBF, CHR 0xE0, CHR 0xA4,
      CHR 0xA8, CHR 0xE0, CHR 0xA5, CHR 0x8D, CHR 0xE0, CHR 0xA4, CHR 0xA6, CHR 0xE0,
      CHR 0xA5, CHR 0x80]"

definition hi_district_performance :: string where
  "hi_district_performance =
     [CHR 0xE0, CHR 0xA4, CHR 0x9C, CHR 0xE0, CHR 0xA4, CHR 0xBF, CHR 0xE0, CHR 0xA4,
      CHR 0xB2, CHR 0xE0, CHR 0xA4, CHR 0xBE]
     @ '' ''
     @ [CHR 0xE0, CHR 0xA4, CHR 0xAA, CHR 0xE0, CHR 0xA5, CHR 0x8D, CHR 0xE0, CHR 0xA4,
      CHR 0xB0, CHR 0xE0, CHR 0xA4, CHR 0xA6, CHR 0xE0, CHR 0xA4, CHR 0xB0, CHR 0xE0,
      CHR 0xA5, CHR 0x8D, CHR 0xE0, CHR 0xA4, CHR 0xB6, CHR 0xE0, CHR 0xA4, CHR 0xA8]"

definition hi_compare_districts :: string where
  "hi_compare_districts =
     [CHR 0xE0, CHR 0xA4, CHR 0x9C, CHR 0xE0, CHR 0xA4, CHR 0xBF, CHR 0xE0, CHR 0xA4,
      CHR 0xB2, CHR 0xE0, CHR 0xA4, CHR 0xBE]
     @ '' ''
     @ [CHR 0xE0, CHR 0xA4, CHR 0xA4, CHR 0xE0, CHR 0xA5, CHR 0x81, CHR 0xE0, CHR 0xA4,
      CHR 0xB2, CHR 0xE0, CHR 0xA4, CHR 0xA8, CHR 0xE0, CHR 0xA4, CHR 0xBE]"

definition hi_what_is :: string where
  "hi_what_is =
     ''MGNREGA ''
     @ [CHR 0xE0, CHR 0xA4, CHR 0x95, CHR 0xE0, CHR 0xA5, CHR 0x8D, CHR 0xE0, CHR 0xA4,
      CHR 0xAF, CHR 0xE0, CHR 0xA4, CHR 0xBE]
     @ '' ''
     @ [CHR 0xE0, CHR 0xA4, CHR 0xB9, CHR 0xE0, CHR 0xA5, CHR 0x88]
     @ ''?''"

definition hi_contact :: string where
  "hi_contact =
     [CHR 0xE0, CHR 0xA4, CHR 0xB8, CHR 0xE0, CHR 0xA4, CHR 0x82, CHR 0xE0, CHR 0xA4,
      CHR 0xAA, CHR 0xE0, CHR 0xA4, CHR 0xB0, CHR 0xE0, CHR 0xA5, CHR 0x8D, CHR 0xE0,
      CHR 0xA4, CHR 0x95]
     @ '' ''
     @ [CHR 0xE0, CHR 0xA4, CHR 0x95, CHR 0xE0, CHR 0xA4, CHR 0xB0, CHR 0xE0, CHR 0xA5,
      CHR 0x87, CHR 0xE0, CHR 0xA4, CHR 0x82]"

text \<open>\<open>lang === 'hi' ? hi : en\<close>\<close>

definition pick :: "string \<Rightarrow> string \<Rightarrow> string \<Rightarrow> string" where
  "pick lang hi en = (if lang = ''hi'' then hi else en)"

text \<open>The button of the header: \<open>setLang(lang === 'hi' ? 'en' : 'hi')\<close>.\<close>

definition toggle_lang :: "string \<Rightarrow> string" where
  "toggle_lang lang = (if lang = ''hi'' then ''en'' else ''hi'')"

text \<open>The four links of the header and the text of its button.\<close>

definition Header_labels :: "string \<Rightarrow> string list" where
  "Header_labels lang =
     [pick lang hi_home ''Home'',
      pick lang hi_state_comparison ''State Comparison'',
      pick lang hi_compare ''Compare'',
      pick lang hi_about ''About'',
      pick lang ''EN'' hi_button]"

text \<open>
  The headings of the pages.  The components Dashboard, Compare, About and Contact take
  \<open>lang\<close>; StateComparison takes no property.
\<close>

definition Dashboard_heading :: "string \<Rightarrow> string" where
  "Dashboard_heading lang = pick lang hi_district_performance ''District Performance''"

definition StateComparison_headings :: "string list" where
  "StateComparison_headings =
     [''State Performance Comparison'', ''Monthly Expenditure'', ''Total Households Worked'']"

definition Compare_heading :: "string \<Rightarrow> string" where
  "Compare_heading lang = pick lang hi_compare_districts ''Compare Districts''"

definition About_heading :: "string \<Rightarrow> string" where
  "About_heading lang = pick lang hi_what_is ''What is MGNREGA?''"

definition Contact_heading :: "string \<Rightarrow> string" where
  "Contact_heading lang = pick lang hi_contact ''Contact / Feedback''"

datatype route = HomeRoute | StateComparisonRoute | CompareRoute | AboutRoute | ContactRoute

text \<open>The element of each route, as \<open>App\<close> builds it from its \<open>lang\<close> state.\<close>

definition page_headings :: "string \<Rightarrow> route \<Rightarrow> string list" where
  "page_headings lang r =
     (case r of
        HomeRoute \<Rightarrow> [Dashboard_heading lang]
      | StateComparisonRoute \<Rightarrow> StateComparison_headings
      | CompareRoute \<Rightarrow> [Compare_heading lang]
      | AboutRoute \<Rightarrow> [About_heading lang]
      | ContactRoute \<Rightarrow> [Contact_heading lang])"

text \<open>
  The state of the application: the language flag of \<open>App\<close>, the route shown, and the
  state of the pages that hold data.
\<close>

record App =
  lang :: string
  route :: route
  dashboard :: Dashboard
  selectedYears :: "string list"

definition click_language :: "App \<Rightarrow> App" where
  "click_language a = a\<lparr>lang := toggle_lang (lang a)\<rparr>"

definition labels_shown :: "App \<Rightarrow> string list" where
  "labels_shown a = Header_labels (lang a) @ page_headings (lang a) (route a)"

section \<open>Reference definitions for the stated properties\<close>

text \<open>The six numeric fields of the sample snapshot, as the catch branch writes them.\<close>

definition sample_kpi_values :: obj where
  "sample_kpi_values =
     [(''Total_Individuals_Worked'', JNum (Fin 90928)),
      (''Total_Households_Worked'', JNum (Fin 87155)),
      (''Total_Exp'', JNum (Fin 15209)),
      (''Women_Persondays'', JNum (Fin 1696959)),
      (''Average_days_of_employment_provided_per_Household'', JNum (Fin 39)),
      (''percentage_payments_gererated_within_15_days'', JNum (fl (10074 / 100)))]"

definition name_for :: "string \<Rightarrow> string" where
  "name_for code =
     (case find (\<lambda>d. district_code d = code) SAMPLE_DISTRICTS of
        Some d \<Rightarrow> district_name d
      | None \<Rightarrow> ''Unknown'')"







text \<open>Rounding to the nearest integer, and a Number times \<open>f / 10\<close> rounded so, in exact arithmetic.\<close>

definition nearest_int :: "rat \<Rightarrow> int" where
  "nearest_int q = \<lfloor>q + 1 / 2\<rfloor>"

definition times_tenths :: "nat \<Rightarrow> number \<Rightarrow> number" where
  "times_tenths f x =
     (case x of Fin v \<Rightarrow> Fin (of_int (nearest_int (v * of_nat f / 10))) | _ \<Rightarrow> x)"

text \<open>The expenditure of a month in a series, and 0 for a month the series does not have.\<close>

definition expenditure_or_zero :: "TimeseriesPoint list \<Rightarrow> string \<Rightarrow> jsval" where
  "expenditure_or_zero series mo =
     (case find (\<lambda>m. month m = mo) series of
        Some m \<Rightarrow> JNum (expenditure m)
      | None \<Rightarrow> JNum (Fin 0))"

definition year_series :: "string \<Rightarrow> TimeseriesPoint list" where
  "year_series year = (case map_of mockStateData year of Some series \<Rightarrow> series | None \<Rightarrow> [])"

text \<open>The decimal numeral of \<open>m / 10\<close> with one digit after the point.\<close>

definition one_decimal :: "nat \<Rightarrow> string" where
  "one_decimal m = digits (m div 10) @ ''.'' @ [digit_char (m mod 10)]"

section \<open>Facts about binary64 rounding\<close>

lemma js_ge_Fin [simp]: "js_ge (Fin a) (Fin b) = (b \<le> a)"
  by (simp add: js_ge_def)

lemma js_add_Fin [simp]: "0 \<le> a \<Longrightarrow> 0 \<le> b \<Longrightarrow> js_add (Fin a) (Fin b) = fl (a + b)"
  by (simp add: js_add_def signed_zero_def fl_def)

lemma js_mul_Fin [simp]: "0 \<le> a \<Longrightarrow> 0 \<le> b \<Longrightarrow> js_mul (Fin a) (Fin b) = fl (a * b)"
  by (auto simp: js_mul_def signed_zero_def fl_def)

lemma js_div_Fin [simp]: "0 \<le> a \<Longrightarrow> 0 < b \<Longrightarrow> js_div (Fin a) (Fin b) = fl (a / b)"
  by (auto simp: js_div_def signed_zero_def fl_def)

lemma js_mod_Fin [simp]:
  "0 \<le> a \<Longrightarrow> b \<noteq> 0 \<Longrightarrow> js_mod (Fin a) (Fin b) = Fin (a - b * of_int (trunc (a / b)))"
  by (auto simp: js_mod_def signed_zero_def Let_def)

lemma Math_round_Fin [simp]: "0 \<le> a \<Longrightarrow> Math_round (Fin a) = Fin (of_int \<lfloor>a + 1 / 2\<rfloor>)"
  by (auto simp: Math_round_def signed_zero_def)

lemma rhe_close: "\<bar>of_int (round_half_even x) - x\<bar> \<le> 1 / 2"
proof -
  have "of_int \<lfloor>x\<rfloor> \<le> x" "x < of_int \<lfloor>x\<rfloor> + 1" by linarith+
  then show ?thesis unfolding round_half_even_def Let_def by (auto simp: abs_le_iff)
qed

lemma rhe_int: "round_half_even (of_int z) = z"
  by (simp add: round_half_even_def)

lemma bitlen_powi:
  assumes "0 < (a::int)"
  shows "2 powi (bitlen a - 1) \<le> (of_int a :: rat)" "(of_int a :: rat) < 2 powi (bitlen a)"
proof -
  from bitlen_bounds[OF assms] have b: "2 ^ nat (bitlen a - 1) \<le> a" "a < 2 ^ nat (bitlen a)" by auto
  have pos: "0 < bitlen a"
  proof (rule ccontr)
    assume "\<not> 0 < bitlen a"
    then have "nat (bitlen a) = 0" by simp
    with b(2) assms show False by simp
  qed
  have "(2::rat) powi (bitlen a - 1) = 2 ^ nat (bitlen a - 1)" using pos by (simp add: power_int_def)
  also have "\<dots> = of_int (2 ^ nat (bitlen a - 1))" by simp
  also have "\<dots> \<le> of_int a" using b(1) by (subst of_int_le_iff)
  finally show "2 powi (bitlen a - 1) \<le> (of_int a :: rat)" .
  have "(of_int a :: rat) < of_int (2 ^ nat (bitlen a))" using b(2) by (subst of_int_less_iff)
  also have "\<dots> = 2 powi (bitlen a)" using pos by (simp add: power_int_def)
  finally show "(of_int a :: rat) < 2 powi (bitlen a)" .
qed

lemma ilog2_bounds:
  assumes "0 < q"
  shows "2 powi (ilog2 q) \<le> q" "q < 2 powi (ilog2 q + 1)"
proof -
  obtain a b where ab: "quotient_of q = (a, b)" by (cases "quotient_of q")
  then have bpos: "0 < b" and q: "q = of_int a / of_int b"
    by (auto dest: quotient_of_denom_pos quotient_of_div)
  have apos: "0 < a" using assms bpos q by (simp add: zero_less_divide_iff)
  define e where "e = bitlen a - bitlen b"
  have B: "(0::rat) < of_int b" using bpos by simp
  have up: "q < 2 powi (e + 1)"
  proof -
    have "q < 2 powi (bitlen a) / of_int b" unfolding q using bitlen_powi(2)[OF apos] B
      by (simp add: divide_strict_right_mono)
    also have "\<dots> \<le> 2 powi (bitlen a) / 2 powi (bitlen b - 1)"
      using bitlen_powi(1)[OF bpos] by (intro divide_left_mono) (auto intro!: mult_pos_pos B)
    also have "\<dots> = 2 powi (e + 1)" by (simp add: e_def power_int_diff[symmetric] algebra_simps)
    finally show ?thesis .
  qed
  have lo: "2 powi (e - 1) \<le> q"
  proof -
    have "2 powi (e - 1) = 2 powi (bitlen a - 1) / (2::rat) powi (bitlen b)"
      by (simp add: e_def power_int_diff[symmetric] algebra_simps)
    also have "\<dots> \<le> of_int a / 2 powi (bitlen b)" using bitlen_powi(1)[OF apos]
      by (simp add: divide_right_mono)
    also have "\<dots> \<le> of_int a / of_int b" using bitlen_powi(2)[OF bpos] apos B
      by (intro divide_left_mono) (auto intro!: mult_pos_pos)
    finally show ?thesis unfolding q .
  qed
  have il: "ilog2 q = (if 2 powi e \<le> q then e else e - 1)"
    by (simp add: ilog2_def ab e_def Let_def)
  show "2 powi (ilog2 q) \<le> q" using lo by (simp add: il)
  show "q < 2 powi (ilog2 q + 1)" using up by (auto simp: il not_le)
qed

lemma powi2_less_D: "(2::rat) powi m < 2 powi n \<Longrightarrow> m < n"
  using power_int_increasing[of n m "2::rat"] by (cases "m < n") auto

lemma fl_pos_unfold:
  assumes "0 < q"
  shows "fl q = (let e = max (ilog2 q) (- 1022); ulp = 2 powi (e - 52);
                    v = of_int (round_half_even (q / ulp)) * ulp
                 in if 2 powi 1024 \<le> v then Infty True else Fin v)"
  using assms by (simp add: fl_def Let_def)

lemma fl_close_pos:
  assumes q: "0 < q" and h: "q < 2 powi h" "- 1021 \<le> h" "h \<le> 1023"
  shows "\<exists>r. fl q = Fin r \<and> \<bar>r - q\<bar> \<le> 2 powi (h - 54)"
proof -
  define e where "e = max (ilog2 q) (- 1022)"
  define ulp :: rat where "ulp = 2 powi (e - 52)"
  define v where "v = of_int (round_half_even (q / ulp)) * ulp"
  have upos: "0 < ulp" by (simp add: ulp_def zero_less_power_int)
  have "2 powi (ilog2 q) < (2::rat) powi h" using ilog2_bounds(1)[OF q] h(1) by simp
  then have "ilog2 q < h" by (rule powi2_less_D)
  then have e: "e \<le> h - 1" using h(2) by (simp add: e_def)
  have "v - q = (of_int (round_half_even (q / ulp)) - q / ulp) * ulp"
    using upos by (simp add: v_def left_diff_distrib)
  then have "\<bar>v - q\<bar> = \<bar>of_int (round_half_even (q / ulp)) - q / ulp\<bar> * ulp"
    using upos by (simp add: abs_mult)
  also have "\<dots> \<le> 1 / 2 * ulp" using rhe_close[of "q / ulp"] upos by (intro mult_right_mono) auto
  also have "\<dots> = 2 powi (e - 53)" by (simp add: ulp_def power_int_diff)
  also have "\<dots> \<le> 2 powi (h - 54)" using e by (intro power_int_increasing) auto
  finally have close: "\<bar>v - q\<bar> \<le> 2 powi (h - 54)" .
  have "v \<le> q + 2 powi (h - 54)" using close by (simp add: abs_le_iff)
  also have "\<dots> < 2 powi h + 2 powi (h - 54)" using h(1) by simp
  also have "\<dots> \<le> 2 powi h + 2 powi h" by (intro add_left_mono power_int_increasing) auto
  also have "\<dots> = 2 powi (h + 1)" by (simp add: power_int_add)
  also have "\<dots> \<le> 2 powi 1024" using h(3) by (intro power_int_increasing) auto
  finally have "\<not> 2 powi 1024 \<le> v" by simp
  then have "fl q = Fin v" using q by (simp add: fl_pos_unfold e_def ulp_def v_def Let_def)
  with close show ?thesis by blast
qed

lemma fl_exact_pos:
  assumes q: "0 < q" and z: "q * 2 ^ j = of_int z" and b: "q < 2 ^ (53 - j)" and j: "j \<le> 53"
  shows "fl q = Fin q"
proof -
  define e where "e = ilog2 q"
  have zpos: "0 < z" using q z by (metis of_int_0_less_iff zero_less_mult_iff zero_less_numeral zero_less_power)
  have "2 powi e \<le> q" using ilog2_bounds(1)[OF q] by (simp add: e_def)
  also have "q < 2 powi (int (53 - j))" using b by (simp add: power_int_def)
  finally have "e < int (53 - j)" by (rule powi2_less_D)
  then have ehi: "e \<le> 52 - int j" using j by simp
  have "(1::rat) \<le> of_int z" using zpos by simp
  then have "1 \<le> q * 2 ^ j" using z by simp
  then have "2 powi (- int j) \<le> q" by (simp add: power_int_minus field_simps)
  also have "q < 2 powi (e + 1)" using ilog2_bounds(2)[OF q] by (simp add: e_def)
  finally have "- int j < e + 1" by (rule powi2_less_D)
  then have elo: "- 1022 \<le> e" using j by simp
  define k where "k = nat (52 - int j - e)"
  have k: "int k = 52 - int j - e" using ehi by (simp add: k_def)
  have "q / 2 powi (e - 52) = q * 2 powi (52 - e)" by (simp add: power_int_diff field_simps)
  also have "52 - e = int j + int k" using k by simp
  also have "q * 2 powi (int j + int k) = (q * 2 ^ j) * 2 ^ k"
    by (simp add: power_int_def nat_add_distrib power_add)
  also have "\<dots> = of_int (z * 2 ^ k)" using z by simp
  finally have quo: "q / 2 powi (e - 52) = of_int (z * 2 ^ k)" .
  have v: "of_int (round_half_even (q / 2 powi (e - 52))) * 2 powi (e - 52) = q"
    unfolding quo rhe_int unfolding quo[symmetric] by simp
  have "q < 2 powi 1024"
  proof -
    have "q < 2 powi (int (53 - j))" using b by (simp add: power_int_def)
    also have "\<dots> \<le> 2 powi 1024" by (intro power_int_increasing) auto
    finally show ?thesis .
  qed
  then show ?thesis using q elo v
    by (simp add: fl_pos_unfold Let_def e_def[symmetric] max_def)
qed

lemma fl_int: "0 \<le> n \<Longrightarrow> n < 2 ^ 53 \<Longrightarrow> fl (of_int n) = Fin (of_int n)"
proof (cases "n = 0")
  case True then show ?thesis by (simp add: fl_def)
next
  case False
  assume "0 \<le> n" "n < 2 ^ 53"
  then have "(of_int n :: rat) < of_int (2 ^ 53)" by (subst of_int_less_iff)
  then show ?thesis using fl_exact_pos[of "of_int n" 0 n] False \<open>0 \<le> n\<close> by simp
qed

lemma fl_numeral: "numeral k < (2 ^ 53 :: int) \<Longrightarrow> fl (numeral k) = Fin (numeral k)"
  using fl_int[of "numeral k"] by simp

lemma fl_zero_one: "fl 0 = Fin 0" "fl 1 = Fin 1"
  using fl_int[of 0] fl_int[of 1] by simp_all

lemma floor_rat_numeral: "\<lfloor>(numeral a / numeral b :: rat)\<rfloor> = numeral a div numeral b"
  using floor_divide_of_int_eq[of "numeral a" "numeral b", where ?'a = rat] by simp

lemma floor_rat_one_numeral: "\<lfloor>(1 / numeral b :: rat)\<rfloor> = 1 div numeral b"
  using floor_divide_of_int_eq[of 1 "numeral b", where ?'a = rat] by simp

lemma Math_round_tenths:
  assumes "0 \<le> N" "N < 2 ^ 50"
  shows "Math_round (fl (of_int N / 10)) = Fin (of_int \<lfloor>(of_int N :: rat) / 10 + 1 / 2\<rfloor>)"
proof -
  define q :: rat where "q = of_int N / 10"
  define k where "k = (N + 5) div 10"
  define m where "m = (N + 5) mod 10"
  have N: "N + 5 = 10 * k + m" and m: "0 \<le> m" "m < 10" by (simp_all add: k_def m_def)
  have "q + 1 / 2 = of_int (N + 5) / 10" by (simp add: q_def field_simps)
  also have "\<dots> = of_int k + of_int m / 10" unfolding N by (simp add: field_simps)
  finally have qk: "q + 1 / 2 = of_int k + of_int m / 10" .
  have fq: "\<lfloor>q + 1 / 2\<rfloor> = k"
  proof (rule floor_unique)
    show "of_int k \<le> q + 1 / 2" using m by (simp add: qk)
    have "(of_int m :: rat) < 10" using m(2) by (metis of_int_less_iff of_int_numeral)
    then show "q + 1 / 2 < of_int k + 1" by (simp add: qk)
  qed
  show ?thesis
  proof (cases "N = 0")
    case True
    then show ?thesis by (simp add: fl_def)
  next
    case False
    then have qpos: "0 < q" using assms(1) by (simp add: q_def)
    have qlt: "q < 2 ^ 50"
    proof -
      have "(of_int N :: rat) < of_int (2 ^ 50)" using assms(2) by (subst of_int_less_iff)
      then show ?thesis using assms(1) by (simp add: q_def)
    qed
    show ?thesis
    proof (cases "m = 0")
      case True
      then have "q * 2 ^ 1 = of_int (2 * k - 1)" using qk by (simp add: field_simps)
      moreover have "q < 2 ^ (53 - 1)" using qlt by (rule less_trans) simp
      ultimately have "fl q = Fin q" using fl_exact_pos[OF qpos, of 1 "2 * k - 1"] by simp
      then show ?thesis using qpos by (simp add: q_def[symmetric])
    next
      case False
      then have m1: "1 \<le> m" "m \<le> 9" using m by auto
      have "q < 2 powi 50" using qlt by (simp add: power_int_def)
      from fl_close_pos[OF qpos this] obtain r where r: "fl q = Fin r" "\<bar>r - q\<bar> \<le> 2 powi (50 - 54)"
        by auto
      have "(2::rat) powi (50 - 54) = 1 / 16" by (simp add: power_int_def power_divide)
      with r(2) have "\<bar>r - q\<bar> \<le> 1 / 16" by simp
      then have rq: "q - 1 / 16 \<le> r" "r \<le> q + 1 / 16" by linarith+
      have ml: "(1::rat) \<le> of_int m" using m1(1) by simp
      have mu: "(of_int m :: rat) \<le> 9" using m1(2) by (metis of_int_le_iff of_int_numeral)
      have "\<lfloor>r + 1 / 2\<rfloor> = k"
      proof (rule floor_unique)
        have "of_int k + 1 / 10 - 1 / 16 \<le> q + 1 / 2 - 1 / 16" using ml by (simp add: qk)
        also have "\<dots> \<le> r + 1 / 2" using rq(1) by simp
        finally show "of_int k \<le> r + 1 / 2" by simp
        have "r + 1 / 2 \<le> q + 1 / 2 + 1 / 16" using rq(2) by simp
        also have "\<dots> \<le> of_int k + 9 / 10 + 1 / 16" using mu by (simp add: qk)
        finally show "r + 1 / 2 < of_int k + 1" by simp
      qed
      moreover have "0 \<le> r"
      proof -
        have "1 \<le> N" using \<open>N \<noteq> 0\<close> assms(1) by simp
        then have "(1::rat) \<le> of_int N" by simp
        then have "1 / 10 \<le> q" by (simp add: q_def)
        then show ?thesis using rq(1) by simp
      qed
      ultimately show ?thesis using r(1) fq by (simp add: q_def[symmetric])
    qed
  qed
qed

lemma scaled_round:
  assumes "p \<in> \<int>" "0 \<le> p" "p < 2 ^ 40" "f \<in> \<int>" "0 \<le> f" "f \<le> 16"
  shows "Math_round (js_div (js_mul (Fin p) (Fin f)) (Fin 10)) =
           Fin (of_int \<lfloor>p * f / 10 + 1 / 2\<rfloor>)"
proof -
  from assms(1) obtain a where a: "p = of_int a" by (auto elim: Ints_cases)
  from assms(4) obtain b where b: "f = of_int b" by (auto elim: Ints_cases)
  have a0: "0 \<le> a" "a < 2 ^ 40" using assms(2,3) unfolding a
    by (simp, metis of_int_less_iff of_int_numeral of_int_power)
  have b0: "0 \<le> b" "b \<le> 16" using assms(5,6) unfolding b
    by (simp, metis of_int_le_iff of_int_numeral)
  have ab0: "0 \<le> a * b" using a0 b0 by simp
  have "a * b \<le> 2 ^ 40 * 16" using a0 b0 by (intro mult_mono) auto
  then have ab: "a * b < 2 ^ 50" by simp
  then have ab53: "a * b < 2 ^ 53" by simp
  have "js_mul (Fin p) (Fin f) = Fin (of_int (a * b))"
    using fl_int[OF ab0 ab53] a0(1) b0(1) by (simp add: a b)
  moreover have "(0::rat) \<le> of_int (a * b)" using ab0 by (subst of_int_0_le_iff)
  ultimately have "js_div (js_mul (Fin p) (Fin f)) (Fin 10) = fl (of_int (a * b) / 10)"
    by (simp del: of_int_mult)
  then show ?thesis using Math_round_tenths[OF ab0 ab] by (simp add: a b)
qed

lemma ilog2_unique:
  assumes "0 < q" "2 powi e \<le> q" "q < 2 powi (e + 1)"
  shows "ilog2 q = e"
proof -
  have "2 powi (ilog2 q) < (2::rat) powi (e + 1)" using ilog2_bounds(1)[OF assms(1)] assms(3) by simp
  then have a: "ilog2 q < e + 1" by (rule powi2_less_D)
  have "2 powi e < (2::rat) powi (ilog2 q + 1)" using ilog2_bounds(2)[OF assms(1)] assms(2) by simp
  then have "e < ilog2 q + 1" by (rule powi2_less_D)
  with a show ?thesis by simp
qed

lemma fl_normal:
  assumes q: "0 < q" and e: "2 powi e \<le> q" "q < 2 powi (e + 1)" and r: "- 1022 \<le> e" "e < 1023"
  shows "fl q = Fin (of_int (round_half_even (q / 2 powi (e - 52))) * 2 powi (e - 52))"
proof -
  from fl_close_pos[OF q e(2)] r obtain v where v: "fl q = Fin v" by auto
  have "max (ilog2 q) (- 1022) = e" using ilog2_unique[OF q e] r(1) by simp
  then show ?thesis using v q by (simp add: fl_pos_unfold Let_def split: if_splits)
qed

lemma fl_nonneg:
  assumes "0 < a" "fl a = Fin q"
  shows "0 \<le> q"
proof -
  have nn: "0 \<le> round_half_even x" if "0 \<le> x" for x
    using that by (auto simp: round_half_even_def Let_def)
  have "0 \<le> round_half_even (a / 2 powi (max (ilog2 a) (- 1022) - 52))"
    using assms(1) by (intro nn divide_nonneg_pos) (auto simp: zero_less_power_int)
  then show ?thesis using assms
    by (auto simp: fl_pos_unfold Let_def split: if_splits)
qed

text \<open>The quotient \<open>14500000 / 10^7\<close>: the binary64 value next below \<open>1.45\<close>.\<close>

lemma fl_145: "fl (29 / 20) = Fin (6530219459687219 / 4503599627370496)"
proof -
  have "(29 / 20 :: rat) / 2 powi (0 - 52) = 32651097298436096 / 5"
    by (simp add: power_int_minus)
  then have "round_half_even ((29 / 20 :: rat) / 2 powi (0 - 52)) = 6530219459687219"
    by (simp add: round_half_even_def Let_def floor_rat_numeral)
  moreover have "fl (29 / 20) =
      Fin (of_int (round_half_even ((29 / 20) / 2 powi (0 - 52))) * 2 powi (0 - 52))"
    by (rule fl_normal) simp_all
  ultimately show ?thesis by (simp add: power_int_minus)
qed

section \<open>Fetch failure: the sample fallback\<close>

lemma fallback_name_eq: "fallback_name code = JStr (name_for code)"
  by (simp add: fallback_name_def name_for_def SAMPLE_DISTRICTS_def js_or_def)

lemma fallback_kpis_eq:
  "fallback_kpis code = JObj ((''district_name'', JStr (name_for code)) # sample_kpi_values)"
  by (simp add: fallback_kpis_def fallback_name_eq sample_kpi_values_def)

lemma fetch_effect_failed:
  assumes "code \<noteq> []" and "r = NetworkError \<or> r = NotJson"
  shows "fetch_effect code r s = on_error code s"
  using assms by (auto simp: fetch_effect_def)

text \<open>
  Claim C10.  When the fetch for a district code fails, the \<open>district_name\<close> of the
  substituted snapshot is the name of the district of the static list that has that
  code (the code the request was issued for, whatever the state shows when the failure
  arrives), and \<open>'Unknown'\<close> when no district has it; the other six fields are constants.
\<close>

theorem fallback_district_name:
  assumes "code \<noteq> []" and "r = NetworkError \<or> r = NotJson"
  shows "districtInfo (fetch_effect code r s) =
           JObj ((''district_name'',
                  JStr (case find (\<lambda>d. district_code d = code) SAMPLE_DISTRICTS of
                          Some d \<Rightarrow> district_name d
                        | None \<Rightarrow> ''Unknown''))
                 # sample_kpi_values)"
  using assms
  by (simp add: fetch_effect_failed on_error_def alert_def fallback_kpis_eq name_for_def)

text \<open>
  The witness: a failure for \<open>0506\<close>, one for a code that is not in the list, and the
  failure of the request for \<open>0501\<close> arriving when \<open>0502\<close> has been selected since.
\<close>

theorem fallback_district_name_witness:
  "''0506'' \<noteq> []
   \<and> districtInfo (select_district ''0506'' NotJson initial_Dashboard) =
       JObj ((''district_name'', JStr ''JEHANABAD'') # sample_kpi_values)
   \<and> ''9999'' \<noteq> []
   \<and> districtInfo (select_district ''9999'' NetworkError initial_Dashboard) =
       JObj ((''district_name'', JStr ''Unknown'') # sample_kpi_values)
   \<and> ''0501'' \<noteq> []
   \<and> districtInfo (fetch_effect ''0501'' NetworkError (initial_Dashboard\<lparr>district := ''0502''\<rparr>)) =
       JObj ((''district_name'', JStr ''PATNA'') # sample_kpi_values)
   \<and> district (fetch_effect ''0501'' NetworkError (initial_Dashboard\<lparr>district := ''0502''\<rparr>)) =
       ''0502''"
  using fallback_district_name[of "''0506''" NotJson "initial_Dashboard\<lparr>district := ''0506''\<rparr>"]
    fallback_district_name[of "''9999''" NetworkError "initial_Dashboard\<lparr>district := ''9999''\<rparr>"]
    fallback_district_name[of "''0501''" NetworkError "initial_Dashboard\<lparr>district := ''0502''\<rparr>"]
  by (simp add: SAMPLE_DISTRICTS_def select_district_def fetch_effect_def on_error_def alert_def)

text \<open>
  Claim C1, as stated: after a failed fetch the snapshot is the same whichever district
  was selected.  It is not: the snapshots substituted for the codes \<open>0501\<close> and \<open>0502\<close>
  differ (in \<open>district_name\<close>).
\<close>

theorem fallback_same_for_all_codes_counterexample:
  "districtInfo (select_district ''0501'' NetworkError initial_Dashboard)
   \<noteq> districtInfo (select_district ''0502'' NetworkError initial_Dashboard)"
  by (simp add: select_district_def fetch_effect_def on_error_def alert_def fallback_kpis_eq
        name_for_def SAMPLE_DISTRICTS_def)

text \<open>
  Claim C1, amended.  For every selected district code, when the fetch fails (network
  error or a body that is not JSON) the user is notified, the time-series becomes the
  built-in sample series, and the snapshot becomes the built-in sample snapshot: its six
  numeric fields are the same constants for every code, and only \<open>district_name\<close>
  depends on the code.
\<close>

theorem fetch_failure_fallback:
  assumes "code \<noteq> []" and "r = NetworkError \<or> r = NotJson"
  shows "alerts (fetch_effect code r s) =
           alerts s @ [''Failed to fetch live data, showing sample instead.'']
       \<and> timeseries (fetch_effect code r s) = series_json SAMPLE_TIMESERIES
       \<and> (\<exists>name. districtInfo (fetch_effect code r s) =
                    JObj ((''district_name'', JStr name) # sample_kpi_values))
       \<and> district (fetch_effect code r s) = district s"
  using assms by (simp add: fetch_effect_failed on_error_def alert_def fallback_kpis_eq)

theorem fetch_failure_fallback_witness:
  "''0544'' \<noteq> []
   \<and> alerts (select_district ''0544'' NotJson initial_Dashboard) =
       [''Failed to fetch live data, showing sample instead.'']
   \<and> timeseries (select_district ''0544'' NotJson initial_Dashboard) =
       series_json SAMPLE_TIMESERIES
   \<and> (\<exists>name. districtInfo (select_district ''0544'' NotJson initial_Dashboard) =
                JObj ((''district_name'', JStr name) # sample_kpi_values))
   \<and> district (select_district ''0544'' NotJson initial_Dashboard) = ''0544''"
  using fetch_failure_fallback[of "''0544''" NotJson "initial_Dashboard\<lparr>district := ''0544''\<rparr>"]
  by (simp add: initial_Dashboard_def select_district_def)

section \<open>Fetch success: the payload replaces the view state\<close>

lemma get_not_null:
  assumes "data \<noteq> JNull" "data \<noteq> JUndefined"
  shows "\<exists>v. get data k = Inr v"
  using assms by (cases data) auto

text \<open>
  Claim C6, as stated: after a successful fetch the time-series is the payload's
  \<open>timeseries\<close> field.  For the body \<open>{"kpis": {}}\<close> that field is \<open>undefined\<close>, and the
  time-series held afterwards is the empty array.  (For the body \<open>null\<close> the reading of
  \<open>data.kpis\<close> throws, and the catch branch substitutes the sample data.)
\<close>

theorem fetch_success_payload_counterexample:
  "get (JObj [(''kpis'', JObj [])]) ''timeseries'' = Inr JUndefined
   \<and> timeseries (select_district ''0501'' (Json (JObj [(''kpis'', JObj [])])) initial_Dashboard)
       = JArr []
   \<and> Inr (timeseries (select_district ''0501'' (Json (JObj [(''kpis'', JObj [])]))
                        initial_Dashboard))
       \<noteq> get (JObj [(''kpis'', JObj [])]) ''timeseries''
   \<and> select_district ''0501'' (Json JNull) initial_Dashboard =
       on_error ''0501'' (initial_Dashboard\<lparr>district := ''0501''\<rparr>)"
  by (simp add: select_district_def fetch_effect_def on_data_def own_prop_def js_or_def
        initial_Dashboard_def)

text \<open>
  Claim C6, amended.  For every successful fetch whose body parses to a JSON value other
  than \<open>null\<close>, the snapshot is replaced by the payload's \<open>kpis\<close> field and the
  time-series by the payload's \<open>timeseries\<close> field when that is truthy, and by the empty
  array otherwise; nothing else of the state changes and nothing of the previous data is
  kept.
\<close>

theorem fetch_success_replaces:
  assumes "code \<noteq> []" and "data \<noteq> JNull" and "data \<noteq> JUndefined"
  shows "\<exists>k t. get data ''kpis'' = Inr k \<and> get data ''timeseries'' = Inr t
           \<and> fetch_effect code (Json data) s =
               s\<lparr>districtInfo := k, timeseries := (if truthy t then t else JArr [])\<rparr>"
proof -
  obtain k where k: "get data ''kpis'' = Inr k" using get_not_null[OF assms(2,3)] by blast
  obtain t where t: "get data ''timeseries'' = Inr t" using get_not_null[OF assms(2,3)] by blast
  show ?thesis using assms(1) k t
    by (simp add: fetch_effect_def on_data_def js_or_def Let_def)
qed

theorem fetch_success_replaces_witness:
  "''0501'' \<noteq> []
   \<and> JObj [(''kpis'', JObj [(''Total_Exp'', JNum (Fin 7))]), (''timeseries'', JArr [JNull])] \<noteq> JNull
   \<and> JObj [(''kpis'', JObj [(''Total_Exp'', JNum (Fin 7))]), (''timeseries'', JArr [JNull])]
       \<noteq> JUndefined
   \<and> select_district ''0501''
        (Json (JObj [(''kpis'', JObj [(''Total_Exp'', JNum (Fin 7))]),
                     (''timeseries'', JArr [JNull])]))
        initial_Dashboard =
      initial_Dashboard\<lparr>district := ''0501'',
                          districtInfo := JObj [(''Total_Exp'', JNum (Fin 7))],
                          timeseries := JArr [JNull]\<rparr>"
  using fetch_success_replaces[of "''0501''"
      "JObj [(''kpis'', JObj [(''Total_Exp'', JNum (Fin 7))]), (''timeseries'', JArr [JNull])]"
      "initial_Dashboard\<lparr>district := ''0501''\<rparr>"]
  by (simp add: own_prop_def select_district_def)

section \<open>Geolocation: failures and the matching heuristic\<close>

lemma alert_frame:
  "district (alert m s) = district s" "districtInfo (alert m s) = districtInfo s"
  "timeseries (alert m s) = timeseries s" "alerts (alert m s) = alerts s @ [m]"
  by (simp_all add: alert_def)

text \<open>
  Claim C7.  When geolocation is unsupported or the position is refused, when the
  reverse-geocoding request fails (the request, the parsing of its body, or the reading
  of the locality), and when no district matches, \<open>handleDetect\<close> only shows a notice:
  the selected district, the snapshot and the time-series are what they were.
\<close>

theorem handleDetect_failures_keep_state:
  "handleDetect rt Unavailable s = alert ''Geolocation not available on this device'' s
   \<and> handleDetect rt PositionError s = alert ''Location permission denied or unavailable'' s
   \<and> handleDetect rt (Position NetworkError) s = alert detect_failed s
   \<and> handleDetect rt (Position NotJson) s = alert detect_failed s
   \<and> (\<forall>jd e. locality_of jd = Inl e \<longrightarrow>
         handleDetect rt (Position (Json jd)) s = alert detect_failed s)
   \<and> (\<forall>jd l e. locality_of jd = Inr l \<and> match_district rt l = Inl e \<longrightarrow>
         handleDetect rt (Position (Json jd)) s = alert detect_failed s)
   \<and> (\<forall>jd l. locality_of jd = Inr l \<and> match_district rt l = Inr None \<longrightarrow>
         handleDetect rt (Position (Json jd)) s =
           alert ''Could not auto-detect district. Please select from list.'' s)
   \<and> (\<forall>m. district (alert m s) = district s \<and> districtInfo (alert m s) = districtInfo s
          \<and> timeseries (alert m s) = timeseries s \<and> alerts (alert m s) = alerts s @ [m])"
  by (simp add: handleDetect_def on_position_def alert_frame)

theorem handleDetect_failures_keep_state_witness:
  "\<forall>rt. locality_of JNull = Inl TypeError
   \<and> handleDetect rt (Position (Json JNull)) initial_Dashboard = alert detect_failed initial_Dashboard
   \<and> locality_of (JObj [(''city'', JNum (Fin 3))]) = Inr (JNum (Fin 3))
   \<and> match_district rt (JNum (Fin 3)) = Inl TypeError
   \<and> handleDetect rt (Position (Json (JObj [(''city'', JNum (Fin 3))]))) initial_Dashboard =
       alert detect_failed initial_Dashboard
   \<and> locality_of (JObj [(''principalSubdivision'', JStr ''Kerala'')]) = Inr (JStr ''Kerala'')
   \<and> match_district rt (JStr ''Kerala'') = Inr None
   \<and> handleDetect rt (Position (Json (JObj [(''principalSubdivision'', JStr ''Kerala'')])))
        initial_Dashboard =
       alert ''Could not auto-detect district. Please select from list.'' initial_Dashboard"
proof
  fix rt
  have a: "locality_of JNull = Inl TypeError" by (simp add: locality_of_def)
  have b: "locality_of (JObj [(''city'', JNum (Fin 3))]) = Inr (JNum (Fin 3))"
    by (simp add: locality_of_def own_prop_def)
  have c: "match_district rt (JNum (Fin 3)) = Inl TypeError" by (simp add: match_district_def)
  have d: "locality_of (JObj [(''principalSubdivision'', JStr ''Kerala'')]) = Inr (JStr ''Kerala'')"
    by (simp add: locality_of_def own_prop_def)
  have e: "match_district rt (JStr ''Kerala'') = Inr None" by code_simp
  show "locality_of JNull = Inl TypeError
   \<and> handleDetect rt (Position (Json JNull)) initial_Dashboard = alert detect_failed initial_Dashboard
   \<and> locality_of (JObj [(''city'', JNum (Fin 3))]) = Inr (JNum (Fin 3))
   \<and> match_district rt (JNum (Fin 3)) = Inl TypeError
   \<and> handleDetect rt (Position (Json (JObj [(''city'', JNum (Fin 3))]))) initial_Dashboard =
       alert detect_failed initial_Dashboard
   \<and> locality_of (JObj [(''principalSubdivision'', JStr ''Kerala'')]) = Inr (JStr ''Kerala'')
   \<and> match_district rt (JStr ''Kerala'') = Inr None
   \<and> handleDetect rt (Position (Json (JObj [(''principalSubdivision'', JStr ''Kerala'')])))
        initial_Dashboard =
       alert ''Could not auto-detect district. Please select from list.'' initial_Dashboard"
    using handleDetect_failures_keep_state[of rt initial_Dashboard] a b c d e by blast
qed


















section \<open>Compare page: the mock series\<close>

lemma nearest_int_close: "\<bar>of_int (nearest_int q) - q\<bar> \<le> 1 / 2"
  unfolding nearest_int_def by linarith

lemma base_counts:
  "\<forall>b \<in> set SAMPLE_TIMESERIES.
     (\<exists>p. persondays b = Fin p \<and> p \<in> \<int> \<and> 0 \<le> p \<and> p < 2 ^ 40)
     \<and> (\<exists>e. expenditure b = Fin e \<and> e \<in> \<int> \<and> 0 \<le> e \<and> e < 2 ^ 40)"
  by (simp add: SAMPLE_TIMESERIES_def)

lemma getMock_scaled:
  assumes "factor code = Fin (of_nat f)" "f \<le> 16"
  shows "getMock code =
           map (\<lambda>b. b\<lparr>persondays := times_tenths f (persondays b),
                       expenditure := times_tenths f (expenditure b)\<rparr>) SAMPLE_TIMESERIES"
proof -
  have f: "(of_nat f :: rat) \<in> \<int>" "(0::rat) \<le> of_nat f" "(of_nat f :: rat) \<le> 16"
    using assms(2) by (auto simp: of_nat_le_iff[of f 16, where ?'a = rat, simplified])
  have "\<And>b. b \<in> set SAMPLE_TIMESERIES \<Longrightarrow>
          Math_round (js_div (js_mul (persondays b) (Fin (of_nat f))) (Fin 10)) =
            times_tenths f (persondays b)
          \<and> Math_round (js_div (js_mul (expenditure b) (Fin (of_nat f))) (Fin 10)) =
            times_tenths f (expenditure b)"
  proof -
    fix b assume "b \<in> set SAMPLE_TIMESERIES"
    with base_counts obtain p e where
      p: "persondays b = Fin p" "p \<in> \<int>" "0 \<le> p" "p < 2 ^ 40" and
      e: "expenditure b = Fin e" "e \<in> \<int>" "0 \<le> e" "e < 2 ^ 40" by blast
    show "Math_round (js_div (js_mul (persondays b) (Fin (of_nat f))) (Fin 10)) =
            times_tenths f (persondays b)
          \<and> Math_round (js_div (js_mul (expenditure b) (Fin (of_nat f))) (Fin 10)) =
            times_tenths f (expenditure b)"
      unfolding p(1) e(1)
      using scaled_round[OF p(2-4) f] scaled_round[OF e(2-4) f]
      by (simp add: times_tenths_def nearest_int_def)
  qed
  then show ?thesis unfolding getMock_def Let_def assms(1) by (intro map_cong) auto
qed

lemma slice_last_snoc: "slice_last (pre @ [c]) = [c]"
  by (simp add: slice_last_def)

lemma digit_char_values:
  "digit_char 0 = CHR ''0''" "digit_char 1 = CHR ''1''" "digit_char 2 = CHR ''2''"
  "digit_char 3 = CHR ''3''" "digit_char 4 = CHR ''4''" "digit_char 5 = CHR ''5''"
  "digit_char 6 = CHR ''6''" "digit_char 7 = CHR ''7''" "digit_char 8 = CHR ''8''"
  "digit_char 9 = CHR ''9''"
  by code_simp+

lemma factor_digit:
  assumes "d < 10"
  shows "factor (pre @ [digit_char d]) = Fin (of_nat (d mod 5 + 8))"
proof -
  from assms have "d \<in> {0, 1, 2, 3, 4, 5, 6, 7, 8, 9}" by auto
  then show ?thesis
    by (elim insertE emptyE)
      (simp_all add: factor_def slice_last_snoc parseInt_def digit_char_values is_space_def
        is_digit_def digit_val_def fl_numeral trunc_def floor_rat_numeral floor_rat_one_numeral fl_zero_one
        digit_char_values(2)[simplified])
qed

lemma factor_empty: "factor [] = Fin 10"
  by (simp add: factor_def)

text \<open>
  Claim C9.  With no district selected the code is the empty string, the factor is 10,
  and the generated series is the base sample series itself.
\<close>

theorem getMock_empty_code:
  "factor [] = Fin 10 \<and> getMock [] = SAMPLE_TIMESERIES"
proof -
  have "getMock [] =
          map (\<lambda>b. b\<lparr>persondays := times_tenths 10 (persondays b),
                      expenditure := times_tenths 10 (expenditure b)\<rparr>) SAMPLE_TIMESERIES"
    using getMock_scaled[of "[]" 10] by (simp add: factor_empty)
  also have "\<dots> = SAMPLE_TIMESERIES"
    by (simp add: SAMPLE_TIMESERIES_def times_tenths_def nearest_int_def floor_rat_numeral)
  finally show ?thesis by (simp add: factor_empty)
qed

text \<open>
  Claim C4.  For a non-empty code whose last character is the digit \<open>d\<close>, the factor is
  \<open>d mod 5 + 8\<close>; the persondays and the expenditure of every month are the base values
  times \<open>factor / 10\<close> rounded to the nearest integer (\<open>nearest_int\<close> is at most one half
  away from its argument), and the months and the households are those of the base
  series.
\<close>

theorem getMock_digit_code:
  assumes "code \<noteq> []" and "last code = digit_char d" and "d < 10"
  shows "factor code = Fin (of_nat (d mod 5 + 8))
       \<and> getMock code =
           map (\<lambda>b. b\<lparr>persondays := times_tenths (d mod 5 + 8) (persondays b),
                       expenditure := times_tenths (d mod 5 + 8) (expenditure b)\<rparr>)
             SAMPLE_TIMESERIES
       \<and> map month (getMock code) = map month SAMPLE_TIMESERIES
       \<and> map households (getMock code) = map households SAMPLE_TIMESERIES
       \<and> (\<forall>q. \<bar>of_int (nearest_int q) - q\<bar> \<le> 1 / 2)"
proof -
  from assms(1,2) have "code = butlast code @ [digit_char d]"
    by (metis append_butlast_last_id)
  then have f: "factor code = Fin (of_nat (d mod 5 + 8))"
    using factor_digit[OF assms(3), of "butlast code"] by simp
  have "d mod 5 + 8 \<le> 16" by simp
  from getMock_scaled[OF f this] show ?thesis using f nearest_int_close by (simp add: o_def)
qed

theorem getMock_digit_code_witness:
  "''0518'' \<noteq> [] \<and> last ''0518'' = digit_char 8 \<and> (8::nat) < 10
   \<and> factor ''0518'' = Fin 11
   \<and> map persondays (getMock ''0518'') =
       [Fin 330000, Fin 352000, Fin 341000, Fin 363000, Fin 374000, Fin 330000, Fin 346500,
        Fin 357500, Fin 3787660]
   \<and> map expenditure (getMock ''0518'') =
       [Fin 13200, Fin 14300, Fin 13750, Fin 15400, Fin 16500, Fin 12980, Fin 13970,
        Fin 14520, Fin 16730]"
  using getMock_digit_code[of "''0518''" 8]
  by (simp add: digit_char_values SAMPLE_TIMESERIES_def times_tenths_def nearest_int_def
        floor_rat_numeral)

section \<open>State comparison: the combined rows\<close>

lemma mockStateData_values:
  "mockStateData =
     [(''2023-24'', SAMPLE_TIMESERIES),
      (''2024-25'',
       [\<lparr>month = ''Apr'', households = Fin 90000, persondays = Fin 305000, expenditure = Fin 13000\<rparr>,
        \<lparr>month = ''May'', households = Fin 92000, persondays = Fin 325000, expenditure = Fin 14000\<rparr>,
        \<lparr>month = ''Jun'', households = Fin 87000, persondays = Fin 315000, expenditure = Fin 13500\<rparr>,
        \<lparr>month = ''Jul'', households = Fin 94000, persondays = Fin 335000, expenditure = Fin 15000\<rparr>,
        \<lparr>month = ''Aug'', households = Fin 96000, persondays = Fin 345000, expenditure = Fin 16000\<rparr>,
        \<lparr>month = ''Sep'', households = Fin 88000, persondays = Fin 305000, expenditure = Fin 12800\<rparr>,
        \<lparr>month = ''Oct'', households = Fin 91000, persondays = Fin 320000, expenditure = Fin 13700\<rparr>,
        \<lparr>month = ''Nov'', households = Fin 93000, persondays = Fin 330000, expenditure = Fin 14200\<rparr>,
        \<lparr>month = ''Dec'', households = Fin 87155, persondays = Fin 3448327, expenditure = Fin 16209\<rparr>])]"
  by (simp add: mockStateData_def SAMPLE_TIMESERIES_def fl_numeral)

lemma combinedData_values:
  "combinedData mockStateData initial_selectedYears =
     [[(''month'', JStr ''Apr''), (''2023-24'', JNum (Fin 12000)), (''2024-25'', JNum (Fin 13000))],
      [(''month'', JStr ''May''), (''2023-24'', JNum (Fin 13000)), (''2024-25'', JNum (Fin 14000))],
      [(''month'', JStr ''Jun''), (''2023-24'', JNum (Fin 12500)), (''2024-25'', JNum (Fin 13500))],
      [(''month'', JStr ''Jul''), (''2023-24'', JNum (Fin 14000)), (''2024-25'', JNum (Fin 15000))],
      [(''month'', JStr ''Aug''), (''2023-24'', JNum (Fin 15000)), (''2024-25'', JNum (Fin 16000))],
      [(''month'', JStr ''Sep''), (''2023-24'', JNum (Fin 11800)), (''2024-25'', JNum (Fin 12800))],
      [(''month'', JStr ''Oct''), (''2023-24'', JNum (Fin 12700)), (''2024-25'', JNum (Fin 13700))],
      [(''month'', JStr ''Nov''), (''2023-24'', JNum (Fin 13200)), (''2024-25'', JNum (Fin 14200))],
      [(''month'', JStr ''Dec''), (''2023-24'', JNum (Fin 15209)), (''2024-25'', JNum (Fin 16209))],
      [(''month'', JStr ''Jan''), (''2023-24'', JNum (Fin 0)), (''2024-25'', JNum (Fin 0))],
      [(''month'', JStr ''Feb''), (''2023-24'', JNum (Fin 0)), (''2024-25'', JNum (Fin 0))],
      [(''month'', JStr ''Mar''), (''2023-24'', JNum (Fin 0)), (''2024-25'', JNum (Fin 0))]]"
  unfolding mockStateData_values
  by (simp add: combinedData_def initial_selectedYears_def months_def year_value_def js_or_def
        SAMPLE_TIMESERIES_def)

text \<open>
  Claim C3.  For the selected years \<open>2023-24\<close> and \<open>2024-25\<close> and the mock year data,
  the combined table has twelve rows, one per month from Apr to Mar in that order; every
  row has the fields \<open>month\<close>, \<open>2023-24\<close> and \<open>2024-25\<close>, and the value of a year's field
  is that year's expenditure of the month, or 0 when the year's series has no such month.
\<close>

theorem combinedData_selected_years:
  "length (combinedData mockStateData initial_selectedYears) = 12
   \<and> map (\<lambda>row. own_prop row ''month'') (combinedData mockStateData initial_selectedYears)
       = map JStr months
   \<and> map (map fst) (combinedData mockStateData initial_selectedYears)
       = replicate 12 (''month'' # initial_selectedYears)
   \<and> list_all
       (\<lambda>year. map (\<lambda>row. own_prop row year) (combinedData mockStateData initial_selectedYears)
                = map (expenditure_or_zero (year_series year)) months)
       initial_selectedYears"
  unfolding combinedData_values
  unfolding year_series_def mockStateData_values
  by (simp add: initial_selectedYears_def months_def own_prop_def expenditure_or_zero_def
        SAMPLE_TIMESERIES_def numeral_eq_Suc)

section \<open>formatNumber\<close>

lemma digits_nonempty: "digits n \<noteq> []"
  by (subst digits.simps) simp

lemma digits_small: "n < 10 \<Longrightarrow> digits n = [digit_char n]"
  by (subst digits.simps) simp

lemma digits_large: "10 \<le> n \<Longrightarrow> digits n = digits (n div 10) @ [digit_char (n mod 10)]"
  by (subst digits.simps) simp

lemma toFixed_one_decimal:
  assumes "0 \<le> q" "q < 10 ^ 21"
  shows "toFixed toStr 1 (Fin q) = Inr (one_decimal (nat \<lfloor>q * 10 + 1 / 2\<rfloor>))"
proof -
  define n where "n = nat \<lfloor>q * 10 + 1 / 2\<rfloor>"
  have "toFixed toStr 1 (Fin q) = Inr (one_decimal n)"
  proof (cases "n < 10")
    case True
    then have "n div 10 = 0" "n mod 10 = n" by simp_all
    then show ?thesis using True assms
      by (simp add: toFixed_def toFixed_digits_def Let_def n_def[symmetric] digits_small
            one_decimal_def digit_char_values)
  next
    case False
    then have d: "digits n = digits (n div 10) @ [digit_char (n mod 10)]"
      by (simp add: digits_large)
    have "length (digits (n div 10)) \<noteq> 0" using digits_nonempty by simp
    then show ?thesis using assms
      by (simp add: toFixed_def toFixed_digits_def Let_def n_def[symmetric] d one_decimal_def)
  qed
  then show ?thesis by (simp add: n_def)
qed

lemma toFixed_1_total: "\<exists>s. toFixed toStr 1 x = Inr s"
  by (cases x) (simp_all add: toFixed_def)

lemma toFixed_large:
  assumes "10 ^ 21 \<le> q"
  shows "toFixed toStr 1 (Fin q) = Inr (toStr q)"
proof -
  have "0 \<le> q" using assms by simp
  then show ?thesis using assms by (simp add: toFixed_def toFixed_digits_def Let_def)
qed

lemma one_decimal_has_point: "CHR ''.'' \<in> set (one_decimal m)"
  by (simp add: one_decimal_def)

lemma one_decimal_not_Infinity: "Inr (one_decimal m @ '' Cr'') \<noteq> (Inr ''Infinity Cr'' :: error + string)"
proof
  assume "Inr (one_decimal m @ '' Cr'') = (Inr ''Infinity Cr'' :: error + string)"
  then have "one_decimal m @ '' Cr'' = ''Infinity'' @ '' Cr''" by simp
  then have "one_decimal m = ''Infinity''" by (simp only: append_same_eq)
  then have "CHR ''.'' \<in> set ''Infinity''" using one_decimal_has_point[of m] by simp
  then show False by simp
qed

lemma formatNumber_total: "\<exists>s. formatNumber rt a = Inr s"
proof (cases a)
  case (ArgNum x)
  obtain s1 where s1: "toFixed (number_toString rt) 1 (js_div x (Fin (10 ^ 7))) = Inr s1"
    using toFixed_1_total by blast
  obtain s2 where s2: "toFixed (number_toString rt) 1 (js_div x (Fin (10 ^ 5))) = Inr s2"
    using toFixed_1_total by blast
  show ?thesis using ArgNum s1 s2 by (simp add: formatNumber_def append_suffix_def)
qed (simp_all add: formatNumber_def)

lemma tenth_of_quotient:
  fixes n e :: int and r :: rat
  assumes e: "0 < e" and n: "0 \<le> n"
    and r: "\<bar>r - of_int n / of_int (20 * e)\<bar> \<le> eps" and eps: "eps * of_int (20 * e) < 1"
  shows "\<bar>of_int \<lfloor>r * 10 + 1 / 2\<rfloor> / 10 - (of_int n / of_int (20 * e) :: rat)\<bar> \<le> 1 / 20"
proof -
  define m where "m = \<lfloor>r * 10 + 1 / 2\<rfloor>"
  define j where "j = m * (2 * e) - n"
  have E: "(0::rat) < of_int e" using e by simp
  have m: "\<bar>of_int m - r * 10\<bar> \<le> 1 / 2" unfolding m_def by linarith
  have "\<bar>of_int m - of_int n / of_int (2 * e)\<bar>
          \<le> \<bar>of_int m - r * 10\<bar> + \<bar>r * 10 - of_int n / of_int (2 * e)\<bar>" by linarith
  also have "r * 10 - of_int n / of_int (2 * e) = (r - of_int n / of_int (20 * e)) * 10"
    using E by (simp add: field_simps)
  also have "\<bar>(r - of_int n / of_int (20 * e)) * 10\<bar> \<le> eps * 10"
    using r by (simp add: abs_mult)
  finally have "\<bar>of_int m - of_int n / of_int (2 * e)\<bar> \<le> 1 / 2 + eps * 10" using m by linarith
  then have "\<bar>of_int m - of_int n / of_int (2 * e)\<bar> * of_int (2 * e)
               \<le> (1 / 2 + eps * 10) * of_int (2 * e)"
    using E by (intro mult_right_mono) auto
  also have "\<bar>of_int m - of_int n / of_int (2 * e)\<bar> * of_int (2 * e) = \<bar>(of_int j :: rat)\<bar>"
  proof -
    have "(of_int m - of_int n / of_int (2 * e)) * of_int (2 * e) = (of_int j :: rat)"
      using E by (simp add: j_def field_simps)
    then have "\<bar>(of_int j :: rat)\<bar> = \<bar>of_int m - of_int n / of_int (2 * e)\<bar> * \<bar>of_int (2 * e)\<bar>"
      by (simp only: abs_mult[symmetric])
    then show ?thesis using E by simp
  qed
  also have "(1 / 2 + eps * 10) * of_int (2 * e) = of_int e + eps * of_int (20 * e)"
    by (simp add: field_simps)
  finally have "\<bar>(of_int j :: rat)\<bar> < of_int e + 1" using eps by linarith
  then have "(of_int \<bar>j\<bar> :: rat) < of_int (e + 1)" by simp
  then have "\<bar>j\<bar> < e + 1" by (subst (asm) of_int_less_iff)
  then have "\<bar>j\<bar> \<le> e" by simp
  then have "(of_int \<bar>j\<bar> :: rat) \<le> of_int e" by (subst of_int_le_iff)
  then have je: "\<bar>(of_int j :: rat)\<bar> \<le> of_int e" by simp
  have "of_int m / 10 - (of_int n / of_int (20 * e) :: rat) = of_int j / of_int (20 * e)"
    using E by (simp add: j_def field_simps)
  also have "\<bar>(of_int j :: rat) / of_int (20 * e)\<bar> = \<bar>of_int j\<bar> / of_int (20 * e)"
    using E by (simp add: abs_divide del: of_int_mult)
  also have "\<dots> \<le> of_int e / of_int (20 * e)" using je E by (intro divide_right_mono) auto
  also have "\<dots> = 1 / 20" using E by simp
  finally show ?thesis unfolding m_def .
qed

lemma quotient_one_decimal:
  fixes n e :: int
  assumes e: "0 < e" and lo: "20 * e \<le> n" and hi: "n < 20 * e * 2 ^ h"
    and h: "h \<le> 53" and small: "20 * e < 2 ^ (54 - h)"
  shows "\<exists>m. toFixed toStr 1 (js_div (Fin (of_int n)) (Fin (of_int (20 * e)))) = Inr (one_decimal m)
             \<and> \<bar>of_nat m / 10 - (of_int n / of_int (20 * e) :: rat)\<bar> \<le> 1 / 20"
proof -
  define D :: rat where "D = of_int (20 * e)"
  define q :: rat where "q = of_int n / D"
  define eps :: rat where "eps = 2 powi (int h - 54)"
  have D: "0 < D" "1 \<le> D" using e by (simp_all add: D_def)
  have "D \<le> of_int n" unfolding D_def using lo by (subst of_int_le_iff)
  then have q1: "1 \<le> q" using D by (simp add: q_def)
  have "(of_int n :: rat) < of_int (20 * e * 2 ^ h)" using hi by (subst of_int_less_iff)
  then have "q < 2 ^ h" using D by (simp add: q_def D_def field_simps)
  then have qh: "q < 2 powi (int h)" by (simp add: power_int_def)
  from fl_close_pos[OF _ qh] q1 h obtain r where r: "fl q = Fin r" "\<bar>r - q\<bar> \<le> eps"
    by (auto simp: eps_def)
  have "D < of_int (2 ^ (54 - h))" unfolding D_def using small by (subst of_int_less_iff)
  then have "D < 2 ^ (54 - h)" by simp
  moreover have "eps = 1 / 2 ^ (54 - h)"
  proof -
    have "int h - 54 = - int (54 - h)" using h by simp
    then have "eps = 2 powi (- int (54 - h))" unfolding eps_def by (rule arg_cong)
    also have "\<dots> = 1 / 2 ^ (54 - h)"
      by (simp only: power_int_minus power_int_of_nat inverse_eq_divide)
    finally show ?thesis .
  qed
  ultimately have dp: "D < 2 ^ (54 - h)" and ep: "eps = 1 / 2 ^ (54 - h)" by simp_all
  have "eps * D < eps * 2 ^ (54 - h)" using dp unfolding ep by (intro mult_strict_left_mono) auto
  then have epsD: "eps * D < 1" unfolding ep by simp
  have eps0: "0 \<le> eps" by (simp add: eps_def)
  have "eps * 1 \<le> eps * D" using eps0 D(2) by (intro mult_left_mono) auto
  then have eps1: "eps < 1" using epsD by simp
  have rpos: "0 \<le> r" using r(2) q1 eps1 by linarith
  have "(2::rat) ^ h \<le> 2 ^ 53" using h by (intro power_increasing) auto
  then have "r < 2 ^ 53 + 1" using r(2) \<open>q < 2 ^ h\<close> eps1 by linarith
  then have rbig: "r < 10 ^ 21" by simp
  have n0: "0 \<le> n" using lo e by simp
  have close: "\<bar>of_int \<lfloor>r * 10 + 1 / 2\<rfloor> / 10 - (of_int n / of_int (20 * e) :: rat)\<bar> \<le> 1 / 20"
    using tenth_of_quotient[OF e n0, of r eps] r(2) epsD by (simp add: q_def D_def)
  have fpos: "0 \<le> \<lfloor>r * 10 + 1 / 2\<rfloor>" using rpos by simp
  have "js_div (Fin (of_int n)) (Fin (of_int (20 * e))) = Fin r"
    using D(1) r(1) n0 by (simp add: q_def D_def)
  then have "toFixed toStr 1 (js_div (Fin (of_int n)) (Fin (of_int (20 * e))))
             = Inr (one_decimal (nat \<lfloor>r * 10 + 1 / 2\<rfloor>))"
    using toFixed_one_decimal[OF rpos rbig] by simp
  moreover have "(of_nat (nat \<lfloor>r * 10 + 1 / 2\<rfloor>) :: rat) = of_int \<lfloor>r * 10 + 1 / 2\<rfloor>"
    using fpos by simp
  ultimately show ?thesis using close by metis
qed

lemma toFixed_computed_quotient:
  assumes "0 < a" and "fl a = Fin q" and "q < 10 ^ 21"
  shows "\<exists>m. toFixed toStr 1 (Fin q) = Inr (one_decimal m) \<and> \<bar>of_nat m / 10 - q\<bar> \<le> 1 / 20"
proof -
  have q0: "0 \<le> q" using fl_nonneg[OF assms(1,2)] .
  define m where "m = nat \<lfloor>q * 10 + 1 / 2\<rfloor>"
  have "0 \<le> \<lfloor>q * 10 + 1 / 2\<rfloor>" using q0 by simp
  then have "(of_nat m :: rat) = of_int \<lfloor>q * 10 + 1 / 2\<rfloor>" by (simp add: m_def)
  moreover have "\<bar>of_int \<lfloor>q * 10 + 1 / 2\<rfloor> / 10 - q\<bar> \<le> 1 / 20" by linarith
  ultimately have "\<bar>of_nat m / 10 - q\<bar> \<le> 1 / 20" by simp
  then show ?thesis using toFixed_one_decimal[OF q0 assms(3)] m_def by blast
qed

lemma formatNumber_crore:
  assumes "10 ^ 7 \<le> x" and "js_div (Fin x) (Fin (10 ^ 7)) = Fin q" and "q < 10 ^ 21"
  shows "\<exists>m. formatNumber rt (ArgNum (Fin x)) = Inr (one_decimal m @ '' Cr'')
             \<and> \<bar>of_nat m / 10 - q\<bar> \<le> 1 / 20"
proof -
  have x0: "0 \<le> x" using assms(1) by simp
  have "0 < x / 10 ^ 7" using assms(1) by simp
  moreover have "fl (x / 10 ^ 7) = Fin q" using assms(2) x0 by simp
  ultimately obtain m where
    "toFixed (number_toString rt) 1 (Fin q) = Inr (one_decimal m)" "\<bar>of_nat m / 10 - q\<bar> \<le> 1 / 20"
    using toFixed_computed_quotient[OF _ _ assms(3)] by blast
  then show ?thesis using assms(1) x0 \<open>fl (x / 10 ^ 7) = Fin q\<close>
    by (auto simp: formatNumber_def append_suffix_def)
qed

lemma formatNumber_crore_large:
  assumes "10 ^ 7 \<le> x" and "js_div (Fin x) (Fin (10 ^ 7)) = Fin q" and "10 ^ 21 \<le> q"
  shows "formatNumber rt (ArgNum (Fin x)) = Inr (number_toString rt q @ '' Cr'')"
proof -
  have x0: "0 \<le> x" using assms(1) by simp
  then have "fl (x / 10 ^ 7) = Fin q" using assms(2) by simp
  then show ?thesis using assms(1) x0
    by (simp add: formatNumber_def append_suffix_def toFixed_large[OF assms(3)])
qed

lemma formatNumber_infinity:
  "formatNumber rt (ArgNum (Infty True)) = Inr ''Infinity Cr''"
  by (simp add: formatNumber_def js_ge_def js_div_def toFixed_def append_suffix_def)

lemma formatNumber_not_ge:
  assumes "\<not> js_ge x (Fin (10 ^ 5))"
  shows "formatNumber rt (ArgNum x) = Inr (toLocaleString rt x)"
proof -
  have "\<not> js_ge x (Fin (10 ^ 7))" using assms by (auto simp: js_ge_def)
  then show ?thesis using assms by (simp add: formatNumber_def)
qed

lemma formatNumber_lakh:
  assumes "10 ^ 5 \<le> x" and "x < 10 ^ 7" and "js_div (Fin x) (Fin (10 ^ 5)) = Fin q"
  shows "\<exists>m. formatNumber rt (ArgNum (Fin x)) = Inr (one_decimal m @ '' L'')
             \<and> \<bar>of_nat m / 10 - q\<bar> \<le> 1 / 20"
proof -
  have x0: "0 \<le> x" using assms(1) by simp
  have pos: "0 < x / 10 ^ 5" using assms(1) by simp
  have flq: "fl (x / 10 ^ 5) = Fin q" using assms(3) x0 by simp
  have "x / 10 ^ 5 < 2 powi 7" using assms(2) by (simp add: power_int_def)
  from fl_close_pos[OF pos this] flq have "\<bar>q - x / 10 ^ 5\<bar> \<le> 2 powi (7 - 54)" by auto
  moreover have "(2::rat) powi (7 - 54) \<le> 1" by (simp add: power_int_minus field_simps)
  moreover have "x / 10 ^ 5 < 100" using assms(2) by simp
  ultimately have "q < 101" by linarith
  then have "q < 10 ^ 21" by simp
  from toFixed_computed_quotient[OF pos flq this] obtain m where
    "toFixed (number_toString rt) 1 (Fin q) = Inr (one_decimal m)" "\<bar>of_nat m / 10 - q\<bar> \<le> 1 / 20"
    by blast
  then show ?thesis using assms(1,2) x0 flq
    by (auto simp: formatNumber_def append_suffix_def)
qed

lemma formatNumber_crore_int:
  fixes n :: int
  assumes n: "10 ^ 7 \<le> n" "n < 2 ^ 53"
  shows "\<exists>m. formatNumber rt (ArgNum (Fin (of_int n))) = Inr (one_decimal m @ '' Cr'')
             \<and> \<bar>of_nat m / 10 - (of_int n / 10 ^ 7 :: rat)\<bar> \<le> 1 / 20"
proof -
  from n(1) have ge: "(10 ^ 7 :: rat) \<le> of_int n"
    by (metis of_int_le_iff of_int_numeral of_int_power)
  from n have "\<exists>m. toFixed (number_toString rt) 1
                     (js_div (Fin (of_int n)) (Fin (of_int (20 * 500000)))) = Inr (one_decimal m)
             \<and> \<bar>of_nat m / 10 - (of_int n / of_int (20 * 500000) :: rat)\<bar> \<le> 1 / 20"
    by (intro quotient_one_decimal[where h = 30]) auto
  then obtain m where
    "toFixed (number_toString rt) 1 (js_div (Fin (of_int n)) (Fin (10 ^ 7))) = Inr (one_decimal m)"
    "\<bar>of_nat m / 10 - (of_int n / 10 ^ 7 :: rat)\<bar> \<le> 1 / 20" by auto
  then show ?thesis using ge by (auto simp: formatNumber_def append_suffix_def)
qed

lemma formatNumber_lakh_int:
  fixes n :: int
  assumes n: "10 ^ 5 \<le> n" "n < 10 ^ 7"
  shows "\<exists>m. formatNumber rt (ArgNum (Fin (of_int n))) = Inr (one_decimal m @ '' L'')
             \<and> \<bar>of_nat m / 10 - (of_int n / 10 ^ 5 :: rat)\<bar> \<le> 1 / 20"
proof -
  from n have ge: "(10 ^ 5 :: rat) \<le> of_int n" and lt: "\<not> (10 ^ 7 :: rat) \<le> of_int n"
    by (metis of_int_le_iff of_int_numeral of_int_power,
        metis not_le of_int_less_iff of_int_numeral of_int_power)
  from n have "\<exists>m. toFixed (number_toString rt) 1
                     (js_div (Fin (of_int n)) (Fin (of_int (20 * 5000)))) = Inr (one_decimal m)
             \<and> \<bar>of_nat m / 10 - (of_int n / of_int (20 * 5000) :: rat)\<bar> \<le> 1 / 20"
    by (intro quotient_one_decimal[where h = 7]) auto
  then obtain m where
    "toFixed (number_toString rt) 1 (js_div (Fin (of_int n)) (Fin (10 ^ 5))) = Inr (one_decimal m)"
    "\<bar>of_nat m / 10 - (of_int n / 10 ^ 5 :: rat)\<bar> \<le> 1 / 20" by auto
  then show ?thesis using ge lt by (auto simp: formatNumber_def append_suffix_def)
qed

text \<open>
  At a tie the binary64 quotient decides which neighbour is printed: \<open>14500000 / 10^7\<close>
  is computed just below \<open>1.45\<close>.
\<close>

lemma formatNumber_tie_example:
  "formatNumber rt (ArgNum (Fin 14500000)) = Inr ''1.4 Cr''"
proof -
  have "js_div (Fin 14500000) (Fin (10 ^ 7)) = Fin (6530219459687219 / 4503599627370496)"
    using fl_145 by simp
  moreover
  have "toFixed (number_toString rt) 1 (Fin (6530219459687219 / 4503599627370496)) = Inr ''1.4''"
    by (subst toFixed_one_decimal)
      (simp_all add: one_decimal_def floor_rat_numeral digits_small digit_char_values
        digit_char_values(2)[simplified])
  ultimately show ?thesis by (simp add: formatNumber_def append_suffix_def)
qed

text \<open>A quotient of \<open>10^21\<close> or more: \<open>16777216 * 10^21 / 10^7\<close> is exact in binary64.\<close>

lemma fl_large_quotient: "fl 1677721600000000000000 = Fin 1677721600000000000000"
proof -
  have "(1677721600000000000000 :: rat) / 2 powi (70 - 52) = of_int 6400000000000000"
    by simp
  then have "round_half_even ((1677721600000000000000 :: rat) / 2 powi (70 - 52)) = 6400000000000000"
    by (simp only: rhe_int)
  moreover have "fl 1677721600000000000000 =
      Fin (of_int (round_half_even (1677721600000000000000 / 2 powi (70 - 52))) * 2 powi (70 - 52))"
    by (rule fl_normal) simp_all
  ultimately show ?thesis by simp
qed

text \<open>
  Claim C2, as stated: for every \<open>n\<close> of at least \<open>10^7\<close> the result is \<open>n / 10^7\<close>
  rounded to one decimal, followed by the crore suffix.  It is not so for \<open>Infinity\<close>:
  the comparison \<open>n >= 1e7\<close> holds, the quotient is \<open>Infinity\<close>, and the result is
  \<open>Infinity Cr\<close>, which is no numeral with one decimal followed by \<open>Cr\<close>.
\<close>

theorem formatNumber_infinity_counterexample:
  "\<forall>rt. js_ge (Infty True) (Fin (10 ^ 7))
     \<and> formatNumber rt (ArgNum (Infty True)) = Inr ''Infinity Cr''
     \<and> (\<forall>m. formatNumber rt (ArgNum (Infty True)) \<noteq> Inr (one_decimal m @ '' Cr''))"
proof (intro allI conjI)
  show "js_ge (Infty True) (Fin (10 ^ 7))" by (simp add: js_ge_def)
next
  fix rt show "formatNumber rt (ArgNum (Infty True)) = Inr ''Infinity Cr''"
    by (rule formatNumber_infinity)
next
  fix rt m show "formatNumber rt (ArgNum (Infty True)) \<noteq> Inr (one_decimal m @ '' Cr'')"
    unfolding formatNumber_infinity using one_decimal_not_Infinity[of m] by (rule not_sym)
qed

text \<open>
  Claim C2, amended.  The argument is \<open>null\<close>, \<open>undefined\<close> or a Number.  \<open>formatNumber\<close>
  gives the placeholder for \<open>null\<close> and \<open>undefined\<close>.  For a finite \<open>n\<close> of at least \<open>10^7\<close>
  whose quotient by \<open>10^7\<close>, as JavaScript computes it, is below \<open>10^21\<close>, it gives a
  numeral with one decimal followed by \<open>Cr\<close>; when the quotient is \<open>10^21\<close> or more it
  gives the host's Number-to-string form of the quotient followed by \<open>Cr\<close>, and for
  \<open>Infinity\<close> it gives \<open>Infinity Cr\<close>.  For \<open>n\<close> from \<open>10^5\<close> below \<open>10^7\<close> it gives a numeral
  with one decimal followed by \<open>L\<close>.  The numeral is a nearest tenth of the computed
  quotient, and for an integer \<open>n\<close> in the safe range it is a nearest tenth of the exact
  quotient \<open>n / 10^7\<close> or \<open>n / 10^5\<close>.  Below \<open>10^5\<close>, and for \<open>NaN\<close>, \<open>-0\<close> and
  \<open>-Infinity\<close>, the result is the locale string of the host.  No argument makes it throw.
\<close>

theorem formatNumber_cases:
  "formatNumber rt ArgNull = Inr placeholder
   \<and> formatNumber rt ArgUndefined = Inr placeholder
   \<and> (\<forall>x q. 10 ^ 7 \<le> x \<and> js_div (Fin x) (Fin (10 ^ 7)) = Fin q \<and> q < 10 ^ 21 \<longrightarrow>
         (\<exists>m. formatNumber rt (ArgNum (Fin x)) = Inr (one_decimal m @ '' Cr'')
              \<and> \<bar>of_nat m / 10 - q\<bar> \<le> 1 / 20))
   \<and> (\<forall>x q. 10 ^ 7 \<le> x \<and> js_div (Fin x) (Fin (10 ^ 7)) = Fin q \<and> 10 ^ 21 \<le> q \<longrightarrow>
         formatNumber rt (ArgNum (Fin x)) = Inr (number_toString rt q @ '' Cr''))
   \<and> formatNumber rt (ArgNum (Infty True)) = Inr ''Infinity Cr''
   \<and> (\<forall>x q. 10 ^ 5 \<le> x \<and> x < 10 ^ 7 \<and> js_div (Fin x) (Fin (10 ^ 5)) = Fin q \<longrightarrow>
         (\<exists>m. formatNumber rt (ArgNum (Fin x)) = Inr (one_decimal m @ '' L'')
              \<and> \<bar>of_nat m / 10 - q\<bar> \<le> 1 / 20))
   \<and> (\<forall>n::int. 10 ^ 7 \<le> n \<and> n < 2 ^ 53 \<longrightarrow>
         (\<exists>m. formatNumber rt (ArgNum (Fin (of_int n))) = Inr (one_decimal m @ '' Cr'')
              \<and> \<bar>of_nat m / 10 - (of_int n / 10 ^ 7 :: rat)\<bar> \<le> 1 / 20))
   \<and> (\<forall>n::int. 10 ^ 5 \<le> n \<and> n < 10 ^ 7 \<longrightarrow>
         (\<exists>m. formatNumber rt (ArgNum (Fin (of_int n))) = Inr (one_decimal m @ '' L'')
              \<and> \<bar>of_nat m / 10 - (of_int n / 10 ^ 5 :: rat)\<bar> \<le> 1 / 20))
   \<and> (\<forall>x. x < 10 ^ 5 \<longrightarrow> formatNumber rt (ArgNum (Fin x)) = Inr (toLocaleString rt (Fin x)))
   \<and> formatNumber rt (ArgNum NaN) = Inr (toLocaleString rt NaN)
   \<and> formatNumber rt (ArgNum NegZero) = Inr (toLocaleString rt NegZero)
   \<and> formatNumber rt (ArgNum (Infty False)) = Inr (toLocaleString rt (Infty False))
   \<and> (\<forall>a. \<exists>s. formatNumber rt a = Inr s)"
proof (intro conjI allI impI)
  show "formatNumber rt ArgNull = Inr placeholder" by (simp add: formatNumber_def)
  show "formatNumber rt ArgUndefined = Inr placeholder" by (simp add: formatNumber_def)
  show "formatNumber rt (ArgNum (Infty True)) = Inr ''Infinity Cr''"
    by (rule formatNumber_infinity)
  show "formatNumber rt (ArgNum NaN) = Inr (toLocaleString rt NaN)"
    by (rule formatNumber_not_ge) (simp add: js_ge_def)
  show "formatNumber rt (ArgNum NegZero) = Inr (toLocaleString rt NegZero)"
    by (rule formatNumber_not_ge) (simp add: js_ge_def)
  show "formatNumber rt (ArgNum (Infty False)) = Inr (toLocaleString rt (Infty False))"
    by (rule formatNumber_not_ge) (simp add: js_ge_def)
next
  fix x q :: rat
  assume "10 ^ 7 \<le> x \<and> js_div (Fin x) (Fin (10 ^ 7)) = Fin q \<and> q < 10 ^ 21"
  then show "\<exists>m. formatNumber rt (ArgNum (Fin x)) = Inr (one_decimal m @ '' Cr'')
              \<and> \<bar>of_nat m / 10 - q\<bar> \<le> 1 / 20"
    using formatNumber_crore[of x q rt] by blast
next
  fix x q :: rat
  assume "10 ^ 7 \<le> x \<and> js_div (Fin x) (Fin (10 ^ 7)) = Fin q \<and> 10 ^ 21 \<le> q"
  then show "formatNumber rt (ArgNum (Fin x)) = Inr (number_toString rt q @ '' Cr'')"
    using formatNumber_crore_large[of x q rt] by blast
next
  fix x q :: rat
  assume "10 ^ 5 \<le> x \<and> x < 10 ^ 7 \<and> js_div (Fin x) (Fin (10 ^ 5)) = Fin q"
  then show "\<exists>m. formatNumber rt (ArgNum (Fin x)) = Inr (one_decimal m @ '' L'')
              \<and> \<bar>of_nat m / 10 - q\<bar> \<le> 1 / 20"
    using formatNumber_lakh[of x q rt] by blast
next
  fix n :: int assume "10 ^ 7 \<le> n \<and> n < 2 ^ 53"
  then show "\<exists>m. formatNumber rt (ArgNum (Fin (of_int n))) = Inr (one_decimal m @ '' Cr'')
              \<and> \<bar>of_nat m / 10 - (of_int n / 10 ^ 7 :: rat)\<bar> \<le> 1 / 20"
    using formatNumber_crore_int[of n rt] by blast
next
  fix n :: int assume "10 ^ 5 \<le> n \<and> n < 10 ^ 7"
  then show "\<exists>m. formatNumber rt (ArgNum (Fin (of_int n))) = Inr (one_decimal m @ '' L'')
              \<and> \<bar>of_nat m / 10 - (of_int n / 10 ^ 5 :: rat)\<bar> \<le> 1 / 20"
    using formatNumber_lakh_int[of n rt] by blast
next
  fix x :: rat assume "x < 10 ^ 5"
  then show "formatNumber rt (ArgNum (Fin x)) = Inr (toLocaleString rt (Fin x))"
    by (intro formatNumber_not_ge) simp
next
  fix a show "\<exists>s. formatNumber rt a = Inr s" by (rule formatNumber_total)
qed

theorem formatNumber_cases_witness:
  "\<forall>rt.
     ((10 ^ 7 :: rat) \<le> 20000000 \<and> js_div (Fin 20000000) (Fin (10 ^ 7)) = Fin 2
        \<and> (2 :: rat) < 10 ^ 21)
     \<and> (\<exists>m. formatNumber rt (ArgNum (Fin 20000000)) = Inr (one_decimal m @ '' Cr'')
            \<and> \<bar>of_nat m / 10 - (2 :: rat)\<bar> \<le> 1 / 20)
     \<and> ((10 ^ 7 :: rat) \<le> 16777216000000000000000000000
        \<and> js_div (Fin 16777216000000000000000000000) (Fin (10 ^ 7)) = Fin 1677721600000000000000
        \<and> (10 ^ 21 :: rat) \<le> 1677721600000000000000)
     \<and> formatNumber rt (ArgNum (Fin 16777216000000000000000000000)) =
         Inr (number_toString rt 1677721600000000000000 @ '' Cr'')
     \<and> ((10 ^ 5 :: rat) \<le> 300000 \<and> (300000 :: rat) < 10 ^ 7
        \<and> js_div (Fin 300000) (Fin (10 ^ 5)) = Fin 3)
     \<and> (\<exists>m. formatNumber rt (ArgNum (Fin 300000)) = Inr (one_decimal m @ '' L'')
            \<and> \<bar>of_nat m / 10 - (3 :: rat)\<bar> \<le> 1 / 20)
     \<and> (10 ^ 7 \<le> (14500000::int) \<and> (14500000::int) < 2 ^ 53)
     \<and> (\<exists>m. formatNumber rt (ArgNum (Fin 14500000)) = Inr (one_decimal m @ '' Cr'')
            \<and> \<bar>of_nat m / 10 - (14500000 / 10 ^ 7 :: rat)\<bar> \<le> 1 / 20)
     \<and> (10 ^ 5 \<le> (1696959::int) \<and> (1696959::int) < 10 ^ 7)
     \<and> (\<exists>m. formatNumber rt (ArgNum (Fin 1696959)) = Inr (one_decimal m @ '' L'')
            \<and> \<bar>of_nat m / 10 - (1696959 / 10 ^ 5 :: rat)\<bar> \<le> 1 / 20)
     \<and> (90928 :: rat) < 10 ^ 5
     \<and> formatNumber rt (ArgNum (Fin 90928)) = Inr (toLocaleString rt (Fin 90928))"
proof
  fix rt
  have a: "(10 ^ 7 :: rat) \<le> 20000000 \<and> js_div (Fin 20000000) (Fin (10 ^ 7)) = Fin 2
             \<and> (2 :: rat) < 10 ^ 21"
    by (simp add: fl_numeral)
  have f: "(10 ^ 7 :: rat) \<le> 16777216000000000000000000000
        \<and> js_div (Fin 16777216000000000000000000000) (Fin (10 ^ 7)) = Fin 1677721600000000000000
        \<and> (10 ^ 21 :: rat) \<le> 1677721600000000000000"
    by (simp add: fl_large_quotient)
  have b: "(10 ^ 5 :: rat) \<le> 300000 \<and> (300000 :: rat) < 10 ^ 7
             \<and> js_div (Fin 300000) (Fin (10 ^ 5)) = Fin 3"
    by (simp add: fl_numeral)
  have c: "10 ^ 7 \<le> (14500000::int) \<and> (14500000::int) < 2 ^ 53" by simp
  have d: "10 ^ 5 \<le> (1696959::int) \<and> (1696959::int) < 10 ^ 7" by simp
  have e: "(90928 :: rat) < 10 ^ 5" by simp
  note T = formatNumber_cases[of rt]
  from T a have 1: "\<exists>m. formatNumber rt (ArgNum (Fin 20000000)) = Inr (one_decimal m @ '' Cr'')
            \<and> \<bar>of_nat m / 10 - (2 :: rat)\<bar> \<le> 1 / 20" by blast
  from T f have 6: "formatNumber rt (ArgNum (Fin 16777216000000000000000000000)) =
         Inr (number_toString rt 1677721600000000000000 @ '' Cr'')" by blast
  from T b have 2: "\<exists>m. formatNumber rt (ArgNum (Fin 300000)) = Inr (one_decimal m @ '' L'')
            \<and> \<bar>of_nat m / 10 - (3 :: rat)\<bar> \<le> 1 / 20" by blast
  from T c have "\<exists>m. formatNumber rt (ArgNum (Fin (of_int 14500000))) = Inr (one_decimal m @ '' Cr'')
            \<and> \<bar>of_nat m / 10 - (of_int 14500000 / 10 ^ 7 :: rat)\<bar> \<le> 1 / 20" by blast
  then have 3: "\<exists>m. formatNumber rt (ArgNum (Fin 14500000)) = Inr (one_decimal m @ '' Cr'')
            \<and> \<bar>of_nat m / 10 - (14500000 / 10 ^ 7 :: rat)\<bar> \<le> 1 / 20" by simp
  from T d have "\<exists>m. formatNumber rt (ArgNum (Fin (of_int 1696959))) = Inr (one_decimal m @ '' L'')
            \<and> \<bar>of_nat m / 10 - (of_int 1696959 / 10 ^ 5 :: rat)\<bar> \<le> 1 / 20" by blast
  then have 4: "\<exists>m. formatNumber rt (ArgNum (Fin 1696959)) = Inr (one_decimal m @ '' L'')
            \<and> \<bar>of_nat m / 10 - (1696959 / 10 ^ 5 :: rat)\<bar> \<le> 1 / 20" by simp
  from T e have 5: "formatNumber rt (ArgNum (Fin 90928)) = Inr (toLocaleString rt (Fin 90928))"
    by blast
  show "((10 ^ 7 :: rat) \<le> 20000000 \<and> js_div (Fin 20000000) (Fin (10 ^ 7)) = Fin 2
        \<and> (2 :: rat) < 10 ^ 21)
     \<and> (\<exists>m. formatNumber rt (ArgNum (Fin 20000000)) = Inr (one_decimal m @ '' Cr'')
            \<and> \<bar>of_nat m / 10 - (2 :: rat)\<bar> \<le> 1 / 20)
     \<and> ((10 ^ 7 :: rat) \<le> 16777216000000000000000000000
        \<and> js_div (Fin 16777216000000000000000000000) (Fin (10 ^ 7)) = Fin 1677721600000000000000
        \<and> (10 ^ 21 :: rat) \<le> 1677721600000000000000)
     \<and> formatNumber rt (ArgNum (Fin 16777216000000000000000000000)) =
         Inr (number_toString rt 1677721600000000000000 @ '' Cr'')
     \<and> ((10 ^ 5 :: rat) \<le> 300000 \<and> (300000 :: rat) < 10 ^ 7
        \<and> js_div (Fin 300000) (Fin (10 ^ 5)) = Fin 3)
     \<and> (\<exists>m. formatNumber rt (ArgNum (Fin 300000)) = Inr (one_decimal m @ '' L'')
            \<and> \<bar>of_nat m / 10 - (3 :: rat)\<bar> \<le> 1 / 20)
     \<and> (10 ^ 7 \<le> (14500000::int) \<and> (14500000::int) < 2 ^ 53)
     \<and> (\<exists>m. formatNumber rt (ArgNum (Fin 14500000)) = Inr (one_decimal m @ '' Cr'')
            \<and> \<bar>of_nat m / 10 - (14500000 / 10 ^ 7 :: rat)\<bar> \<le> 1 / 20)
     \<and> (10 ^ 5 \<le> (1696959::int) \<and> (1696959::int) < 10 ^ 7)
     \<and> (\<exists>m. formatNumber rt (ArgNum (Fin 1696959)) = Inr (one_decimal m @ '' L'')
            \<and> \<bar>of_nat m / 10 - (1696959 / 10 ^ 5 :: rat)\<bar> \<le> 1 / 20)
     \<and> (90928 :: rat) < 10 ^ 5
     \<and> formatNumber rt (ArgNum (Fin 90928)) = Inr (toLocaleString rt (Fin 90928))"
    using a b c d e f 1 2 3 4 5 6 by (intro conjI) blast+
qed

section \<open>The language flag\<close>

text \<open>
  Claim C8, evaluated.  On the state comparison page a click on the language button
  changes the labels of the header and nothing else: the headings of the page are the
  same English texts before and after, and the data held by the pages is untouched.
\<close>

theorem language_toggle_state_comparison:
  "labels_shown (click_language \<lparr>lang = ''en'', route = StateComparisonRoute,
                                  dashboard = initial_Dashboard,
                                  selectedYears = initial_selectedYears\<rparr>) =
     [hi_home, hi_state_comparison, hi_compare, hi_about, ''EN'',
      ''State Performance Comparison'', ''Monthly Expenditure'', ''Total Households Worked'']
   \<and> page_headings (toggle_lang ''en'') StateComparisonRoute =
       page_headings ''en'' StateComparisonRoute
   \<and> page_headings (toggle_lang ''hi'') StateComparisonRoute =
       page_headings ''hi'' StateComparisonRoute
   \<and> page_headings (toggle_lang ''en'') AboutRoute \<noteq> page_headings ''en'' AboutRoute
   \<and> dashboard (click_language a) = dashboard a
   \<and> selectedYears (click_language a) = selectedYears a
   \<and> route (click_language a) = route a"
  by (simp add: labels_shown_def click_language_def toggle_lang_def Header_labels_def
        page_headings_def StateComparison_headings_def About_heading_def pick_def
        hi_what_is_def)

end
